theory Spec2Isabelle
  imports Complex_Main
begin

section \<open>Numbers\<close>

text \<open>
  The repository is a WebXR measuring tool written against three.js. Its own code is the
  three classes of the helper module (\<open>HitTestManager\<close>, \<open>PlaneDetector\<close>,
  \<open>MeasurementHelper\<close>) and the page script \<open>app.js\<close>; the numbers, the vectors, the
  scene graph and \<open>Number.prototype.toFixed\<close> belong to the language and the library.

  A JavaScript number is an IEEE 754 double: a finite value, one of the two infinities, or
  NaN. The finite values are kept as the real numbers they denote; the two zeros are one
  value (they compare equal, print alike, and nothing here divides by zero).
\<close>

datatype double = isNum: Num (numOf: real) | PosInfinity | NegInfinity | NaN

text \<open>The integer nearest to \<open>t\<close>; of two equally near, the even one.\<close>

definition roundTiesToEven :: "real \<Rightarrow> int" where
  "roundTiesToEven t =
     (let f = \<lfloor>t\<rfloor>
      in if t - of_int f < 1 / 2 then f
         else if 1 / 2 < t - of_int f then f + 1
         else if even f then f else f + 1)"

text \<open>
  The double for a real number (the language's "Number value for x"): with \<open>e\<close> the binary
  exponent of \<open>x\<close>, not below that of the smallest normal number, the spacing of the
  doubles around \<open>x\<close> is \<open>2^(e - 52)\<close>; \<open>x\<close> is rounded to the nearest multiple of it, ties
  to even, and a result of magnitude \<open>2^1024\<close> or more is an infinity. Every arithmetic
  operation and every numeric literal of the program rounds its exact result this way.
\<close>

definition toDouble :: "real \<Rightarrow> double" where
  "toDouble x =
     (if x = 0 then Num 0
      else
        (let e = max \<lfloor>log 2 \<bar>x\<bar>\<rfloor> (- 1022);
             u = 2 powr (of_int e - 52);
             y = of_int (roundTiesToEven (x / u)) * u
         in if 2 ^ 1024 \<le> \<bar>y\<bar> then (if 0 < x then PosInfinity else NegInfinity)
            else Num y))"

text \<open>The unit roundoff of the format: half the spacing relative to the value.\<close>

definition roundoff :: real where
  "roundoff = 1 / 2 ^ 53"

fun fneg :: "double \<Rightarrow> double" where
  "fneg (Num x) = Num (- x)"
| "fneg PosInfinity = NegInfinity"
| "fneg NegInfinity = PosInfinity"
| "fneg NaN = NaN"

text \<open>\<open>a + b\<close>.\<close>

fun fadd :: "double \<Rightarrow> double \<Rightarrow> double" where
  "fadd NaN b = NaN"
| "fadd a NaN = NaN"
| "fadd PosInfinity NegInfinity = NaN"
| "fadd NegInfinity PosInfinity = NaN"
| "fadd PosInfinity b = PosInfinity"
| "fadd NegInfinity b = NegInfinity"
| "fadd a PosInfinity = PosInfinity"
| "fadd a NegInfinity = NegInfinity"
| "fadd (Num x) (Num y) = toDouble (x + y)"

text \<open>\<open>a - b\<close>.\<close>

definition fsub :: "double \<Rightarrow> double \<Rightarrow> double" where
  "fsub a b = fadd a (fneg b)"

text \<open>\<open>a * b\<close>.\<close>

fun fmul :: "double \<Rightarrow> double \<Rightarrow> double" where
  "fmul NaN b = NaN"
| "fmul a NaN = NaN"
| "fmul (Num x) (Num y) = toDouble (x * y)"
| "fmul (Num x) PosInfinity = (if x = 0 then NaN else if 0 < x then PosInfinity else NegInfinity)"
| "fmul (Num x) NegInfinity = (if x = 0 then NaN else if 0 < x then NegInfinity else PosInfinity)"
| "fmul PosInfinity (Num y) = (if y = 0 then NaN else if 0 < y then PosInfinity else NegInfinity)"
| "fmul NegInfinity (Num y) = (if y = 0 then NaN else if 0 < y then NegInfinity else PosInfinity)"
| "fmul PosInfinity PosInfinity = PosInfinity"
| "fmul PosInfinity NegInfinity = NegInfinity"
| "fmul NegInfinity PosInfinity = NegInfinity"
| "fmul NegInfinity NegInfinity = PosInfinity"

text \<open>\<open>Math.sqrt(a)\<close>.\<close>

fun fsqrt :: "double \<Rightarrow> double" where
  "fsqrt (Num x) = (if x < 0 then NaN else toDouble (sqrt x))"
| "fsqrt PosInfinity = PosInfinity"
| "fsqrt NegInfinity = NaN"
| "fsqrt NaN = NaN"

section \<open>Spatial primitives and the scene\<close>

datatype vector3 = Vector3 (vx: double) (vy: double) (vz: double)

text \<open>
  \<open>Vector3.distanceTo\<close>: \<open>Math.sqrt(dx * dx + dy * dy + dz * dz)\<close> over the differences of
  the coordinates.
\<close>

definition distanceTo :: "vector3 \<Rightarrow> vector3 \<Rightarrow> double" where
  "distanceTo a b =
     (let dx = fsub (vx a) (vx b); dy = fsub (vy a) (vy b); dz = fsub (vz a) (vz b)
      in fsqrt (fadd (fadd (fmul dx dx) (fmul dy dy)) (fmul dz dz)))"

definition addVectors :: "vector3 \<Rightarrow> vector3 \<Rightarrow> vector3" where
  "addVectors a b = Vector3 (fadd (vx a) (vx b)) (fadd (vy a) (vy b)) (fadd (vz a) (vz b))"

definition multiplyScalar :: "vector3 \<Rightarrow> double \<Rightarrow> vector3" where
  "multiplyScalar v k = Vector3 (fmul (vx v) k) (fmul (vy v) k) (fmul (vz v) k)"

text \<open>
  The three kinds of primitive the measurement helper creates: a sphere mesh at a position,
  a line between two points, and a sprite showing a text at a position. Every
  \<open>new THREE.Mesh\<close>, \<open>new THREE.Line\<close> and \<open>new THREE.Sprite\<close> yields a new object; the
  identity is the number \<open>oid\<close>, taken from a counter that the state carries.
\<close>

datatype primitive = Mesh vector3 | Line vector3 vector3 | Sprite string vector3

record object3D =
  oid :: nat
  prim :: primitive

text \<open>
  Modelled from the spec: the Scene Adapter (\<open>THREE.Scene\<close>, not part of the repository)
  "accepts/removes visual primitives" and is "a pure in-memory graph". It is the set of the
  primitives that are registered: \<open>add\<close> registers one, \<open>remove\<close> unregisters it and does
  nothing for a primitive that is not registered.
\<close>

definition scene_add :: "object3D \<Rightarrow> object3D set \<Rightarrow> object3D set" where
  "scene_add ob sc = insert ob sc"

definition scene_remove :: "object3D \<Rightarrow> object3D set \<Rightarrow> object3D set" where
  "scene_remove ob sc = sc - {ob}"

section \<open>Number.prototype.toFixed\<close>

definition digitChar :: "nat \<Rightarrow> char" where
  "digitChar d = ''0123456789'' ! d"

fun digits :: "nat \<Rightarrow> string" where
  "digits n = (if n < 10 then [digitChar n] else digits (n div 10) @ [digitChar (n mod 10)])"

declare digits.simps [simp del]

text \<open>
  \<open>x.toFixed(f)\<close> as ECMAScript defines it, for the calls of the repository (\<open>f\<close> is 1 or
  2). NaN and the infinities print by name. For a finite \<open>x\<close> the sign is split off; below
  \<open>10^21\<close> the integer \<open>n\<close> nearest to \<open>x * 10^f\<close> is taken (the larger one on a tie), its
  decimal digits are padded with zeros to \<open>f + 1\<close> places and the point is put before the
  last \<open>f\<close> of them. From \<open>10^21\<close> on the language prints the number in the format of
  \<open>Number::toString\<close>, the shortest digits that read back as the same double: that
  printer is the parameter \<open>numberToString\<close>.
\<close>

definition toFixed :: "(real \<Rightarrow> string) \<Rightarrow> nat \<Rightarrow> double \<Rightarrow> string" where
  "toFixed numberToString f d =
     (case d of
        NaN \<Rightarrow> ''NaN''
      | PosInfinity \<Rightarrow> ''Infinity''
      | NegInfinity \<Rightarrow> ''-Infinity''
      | Num x \<Rightarrow>
          (let s = (if x < 0 then ''-'' else '''');
               a = (if x < 0 then - x else x)
           in if 10 ^ 21 \<le> a then s @ numberToString a
              else
                (let n = nat \<lfloor>a * 10 ^ f + 1 / 2\<rfloor>;
                     m = digits n;
                     m' = (if f \<noteq> 0
                           then (let z = (if length m \<le> f
                                           then replicate (f + 1 - length m) (CHR ''0'') @ m
                                           else m);
                                     k = length z
                                 in take (k - f) z @ ''.'' @ drop (k - f) z)
                           else m)
                 in s @ m')))"

section \<open>MeasurementHelper\<close>

text \<open>
  The fields of the class that change: the scene it was given, \<open>points\<close>, \<open>markers\<close> and
  \<open>lineSegments\<close>. \<open>objectId\<close> is the identity that the next created primitive receives.
\<close>

record measurementHelper =
  objectId :: nat
  scene :: "object3D set"
  points :: "vector3 list"
  markers :: "object3D list"
  lineSegments :: "object3D list"

text \<open>The constructor: the three collections start empty, over the scene passed in.\<close>

definition newMeasurementHelper :: "nat \<Rightarrow> object3D set \<Rightarrow> measurementHelper" where
  "newMeasurementHelper n sc =
     \<lparr>objectId = n, scene = sc, points = [], markers = [], lineSegments = []\<rparr>"

text \<open>
  \<open>createTextLabel(text, position)\<close>: a sprite at \<open>position\<close>, its y then raised by
  \<open>y += 0.05\<close> ("place the text above the line"), added to the scene and returned.
\<close>

definition createTextLabel ::
  "string \<Rightarrow> vector3 \<Rightarrow> measurementHelper \<Rightarrow> object3D \<times> measurementHelper" where
  "createTextLabel text position s =
     (let sprite = \<lparr>oid = objectId s,
                     prim = Sprite text
                              (Vector3 (vx position) (fadd (vy position) (toDouble 0.05))
                                 (vz position))\<rparr>
      in (sprite, s\<lparr>objectId := objectId s + 1, scene := scene_add sprite (scene s)\<rparr>))"

text \<open>
  \<open>createLineSegment(point1, point2)\<close>: the line goes to the scene and to \<open>lineSegments\<close>;
  the label goes to the scene and to \<open>markers\<close>; the distance is returned.
\<close>

definition createLineSegment ::
  "(real \<Rightarrow> string) \<Rightarrow> vector3 \<Rightarrow> vector3 \<Rightarrow> measurementHelper \<Rightarrow>
   double \<times> measurementHelper" where
  "createLineSegment numberToString point1 point2 s =
     (let line = \<lparr>oid = objectId s, prim = Line point1 point2\<rparr>;
          s1 = s\<lparr>objectId := objectId s + 1,
                 scene := scene_add line (scene s),
                 lineSegments := lineSegments s @ [line]\<rparr>;
          distance = distanceTo point1 point2;
          midPoint = multiplyScalar (addVectors point1 point2) (toDouble 0.5);
          (distanceLabel, s2) =
             createTextLabel
               (toFixed numberToString 1 (fmul distance (toDouble 100)) @ '' cm'') midPoint s1
      in (distance, s2\<lparr>markers := markers s2 @ [distanceLabel]\<rparr>))"

text \<open>
  \<open>addPoint(position)\<close>: push the point, create and push its marker, and once there are
  two points or more connect the last two; the result is the number of points.
\<close>

definition addPoint ::
  "(real \<Rightarrow> string) \<Rightarrow> vector3 \<Rightarrow> measurementHelper \<Rightarrow> nat \<times> measurementHelper" where
  "addPoint numberToString position s =
     (let point = position;
          s1 = s\<lparr>points := points s @ [point]\<rparr>;
          marker = \<lparr>oid = objectId s1, prim = Mesh point\<rparr>;
          s2 = s1\<lparr>objectId := objectId s1 + 1,
                  scene := scene_add marker (scene s1),
                  markers := markers s1 @ [marker]\<rparr>;
          s3 = (if 2 \<le> length (points s2)
                then (let lastIndex = length (points s2) - 1;
                          p1 = points s2 ! (lastIndex - 1);
                          p2 = points s2 ! lastIndex
                      in snd (createLineSegment numberToString p1 p2 s2))
                else s2)
      in (length (points s3), s3))"

text \<open>\<open>clear()\<close>: every marker and every line leaves the scene, the collections are reset.\<close>

definition clear :: "measurementHelper \<Rightarrow> measurementHelper" where
  "clear s =
     (let sc1 = fold scene_remove (markers s) (scene s);
          sc2 = fold scene_remove (lineSegments s) sc1
      in s\<lparr>scene := sc2, points := [], markers := [], lineSegments := []\<rparr>)"

text \<open>
  \<open>removeLastMeasurement()\<close>: nothing without points; else the last element of \<open>markers\<close>
  is popped and removed from the scene, the last line is popped and removed when there is
  one and the number of points is odd, and the last point is popped.
\<close>

definition removeLastMeasurement :: "measurementHelper \<Rightarrow> measurementHelper" where
  "removeLastMeasurement s =
     (if length (points s) = 0 then s
      else
        (let s1 = (if 0 < length (markers s)
                   then (let lastMarker = last (markers s)
                         in s\<lparr>markers := butlast (markers s),
                              scene := scene_remove lastMarker (scene s)\<rparr>)
                   else s);
             s2 = (if 0 < length (lineSegments s1) \<and> length (points s1) mod 2 = 1
                   then (let lastLine = last (lineSegments s1)
                         in s1\<lparr>lineSegments := butlast (lineSegments s1),
                               scene := scene_remove lastLine (scene s1)\<rparr>)
                   else s1)
         in s2\<lparr>points := butlast (points s2)\<rparr>))"

text \<open>
  The session as the page drives it: the three operations, and a run of them in order.
\<close>

datatype operation = AddPoint vector3 | RemoveLast | Clear

fun exec :: "(real \<Rightarrow> string) \<Rightarrow> operation \<Rightarrow> measurementHelper \<Rightarrow> measurementHelper" where
  "exec numberToString (AddPoint p) s = snd (addPoint numberToString p s)"
| "exec numberToString RemoveLast s = removeLastMeasurement s"
| "exec numberToString Clear s = clear s"

fun run :: "(real \<Rightarrow> string) \<Rightarrow> operation list \<Rightarrow> measurementHelper \<Rightarrow> measurementHelper" where
  "run numberToString [] s = s"
| "run numberToString (op # ops) s = run numberToString ops (exec numberToString op s)"

text \<open>The invariant of the data model: one segment less than points, none without points.\<close>

definition segmentInvariant :: "measurementHelper \<Rightarrow> bool" where
  "segmentInvariant s =
     (int (length (lineSegments s)) = max 0 (int (length (points s)) - 1))"

text \<open>
  Names for what two calls of \<open>addPoint\<close> build: the marker of a point, the line between
  two points, the label of that line, and the session after the second call (two points,
  one line, one label), from a new helper over the scene \<open>sc\<close> whose first primitive
  receives the identity \<open>n\<close>.
\<close>

definition markerOf :: "nat \<Rightarrow> vector3 \<Rightarrow> object3D" where
  "markerOf n p = \<lparr>oid = n, prim = Mesh p\<rparr>"

definition lineOf :: "nat \<Rightarrow> vector3 \<Rightarrow> vector3 \<Rightarrow> object3D" where
  "lineOf n p1 p2 = \<lparr>oid = n, prim = Line p1 p2\<rparr>"

definition labelOf :: "(real \<Rightarrow> string) \<Rightarrow> nat \<Rightarrow> vector3 \<Rightarrow> vector3 \<Rightarrow> object3D" where
  "labelOf numberToString n p1 p2 =
     \<lparr>oid = n,
      prim = Sprite (toFixed numberToString 1 (fmul (distanceTo p1 p2) (toDouble 100)) @ '' cm'')
               (Vector3 (vx (multiplyScalar (addVectors p1 p2) (toDouble 0.5)))
                        (fadd (vy (multiplyScalar (addVectors p1 p2) (toDouble 0.5)))
                           (toDouble 0.05))
                        (vz (multiplyScalar (addVectors p1 p2) (toDouble 0.5))))\<rparr>"

definition completed ::
  "(real \<Rightarrow> string) \<Rightarrow> nat \<Rightarrow> object3D set \<Rightarrow> vector3 \<Rightarrow> vector3 \<Rightarrow> measurementHelper" where
  "completed numberToString n sc p1 p2 =
     snd (addPoint numberToString p2
            (snd (addPoint numberToString p1 (newMeasurementHelper n sc))))"

text \<open>A printer for numbers from \<open>10^21\<close> on, for the concrete examples (none reaches it).\<close>

definition noExponent :: "real \<Rightarrow> string" where
  "noExponent x = []"

section \<open>HitTestManager\<close>

text \<open>
  The WebXR objects are the browser's. A call into them either returns or throws (an
  awaited promise resolves or rejects): \<open>Inr\<close> the value, \<open>Inl\<close> what was thrown.
  \<open>supportedFeatures\<close> may be missing on the session (\<open>None\<close>); \<open>getPose\<close> returns the
  matrix of the pose's transform, or null (\<open>None\<close>).
\<close>

datatype jsError = JsError string

record ('sp, 'src) xrSession =
  supportedFeatures :: "string list option"
  requestReferenceSpace :: "string \<Rightarrow> jsError + 'sp"
  xrRequestHitTestSource :: "'sp \<Rightarrow> jsError + 'src"

record ('rs, 'm) xrHitTestResult =
  getPose :: "'rs \<Rightarrow> jsError + 'm option"

record ('src, 'rs, 'm) xrFrame =
  xrGetHitTestResults :: "'src \<Rightarrow> jsError + ('rs, 'm) xrHitTestResult list"

text \<open>What the manager does to the outside, in order: console output and WebXR requests.\<close>

datatype ('sp, 'src) event =
    ConsoleWarn string
  | ConsoleError string jsError
  | ReferenceSpaceRequested string
  | HitTestSourceRequested 'sp
  | Cancelled 'src

record ('q, 'm) hitResult =
  position :: vector3
  rotation :: 'q
  matrix :: 'm

record ('src, 'q, 'm) hitTestManager =
  hitTestSource :: "'src option"
  hitTestSourceRequested :: bool
  hitMatrix :: 'm
  hitResults :: "('q, 'm) hitResult list"

text \<open>The constructor; \<open>identity\<close> is the matrix \<open>new THREE.Matrix4()\<close>.\<close>

definition newHitTestManager :: "'m \<Rightarrow> ('src, 'q, 'm) hitTestManager" where
  "newHitTestManager identity =
     \<lparr>hitTestSource = None, hitTestSourceRequested = False,
      hitMatrix = identity, hitResults = []\<rparr>"

text \<open>
  \<open>async requestHitTestSource(session, referenceSpace)\<close>, run to completion. The result
  is the settlement of the promise it returns (\<open>Inl\<close>: rejected), the manager and the
  trace of events afterwards. Both awaited requests stand inside the \<open>try\<close>; the \<open>catch\<close>
  logs.
\<close>

definition requestHitTestSource ::
  "('sp, 'src) xrSession \<Rightarrow> ('src, 'q, 'm) hitTestManager \<Rightarrow> ('sp, 'src) event list \<Rightarrow>
   (jsError + unit) \<times> ('src, 'q, 'm) hitTestManager \<times> ('sp, 'src) event list" where
  "requestHitTestSource session m tr =
     (if hitTestSourceRequested m then (Inr (), m, tr)
      else if (case supportedFeatures session of
                 None \<Rightarrow> True
               | Some fs \<Rightarrow> ''hit-test'' \<notin> set fs)
      then (Inr (), m, tr @ [ConsoleWarn ''Hit test not supported by this device or browser''])
      else
        (case requestReferenceSpace session ''viewer'' of
           Inl e \<Rightarrow>
             (Inr (), m,
              tr @ [ReferenceSpaceRequested ''viewer'',
                    ConsoleError ''Error requesting hit test source:'' e])
         | Inr viewerSpace \<Rightarrow>
             (case xrRequestHitTestSource session viewerSpace of
                Inl e \<Rightarrow>
                  (Inr (), m,
                   tr @ [ReferenceSpaceRequested ''viewer'',
                         HitTestSourceRequested viewerSpace,
                         ConsoleError ''Error requesting hit test source:'' e])
              | Inr src \<Rightarrow>
                  (Inr (),
                   m\<lparr>hitTestSource := Some src, hitTestSourceRequested := True\<rparr>,
                   tr @ [ReferenceSpaceRequested ''viewer'',
                         HitTestSourceRequested viewerSpace]))))"

text \<open>The acquisitions of a hit-test source that a trace holds.\<close>

fun isAcquisition :: "('sp, 'src) event \<Rightarrow> bool" where
  "isAcquisition (HitTestSourceRequested _) = True"
| "isAcquisition _ = False"

definition acquisitions :: "('sp, 'src) event list \<Rightarrow> nat" where
  "acquisitions tr = length (filter isAcquisition tr)"

text \<open>
  \<open>getHitTestResults(frame, referenceSpace)\<close>. \<open>setFromMatrixPosition\<close> and
  \<open>setFromRotationMatrix\<close> are the library's decomposition of a matrix into a position
  and a quaternion. Nothing is caught here: what the frame or the hit throws leaves the
  method, after \<open>hitResults\<close> was emptied.
\<close>

definition getHitTestResults ::
  "('m \<Rightarrow> vector3) \<Rightarrow> ('m \<Rightarrow> 'q) \<Rightarrow> ('src, 'rs, 'm) xrFrame \<Rightarrow> 'rs \<Rightarrow>
   ('src, 'q, 'm) hitTestManager \<Rightarrow>
   (jsError + ('q, 'm) hitResult list) \<times> ('src, 'q, 'm) hitTestManager" where
  "getHitTestResults setFromMatrixPosition setFromRotationMatrix frame referenceSpace m =
     (let m1 = m\<lparr>hitResults := []\<rparr>
      in case hitTestSource m1 of
           None \<Rightarrow> (Inr (hitResults m1), m1)
         | Some src \<Rightarrow>
             (case xrGetHitTestResults frame src of
                Inl e \<Rightarrow> (Inl e, m1)
              | Inr hitTestResults \<Rightarrow>
                  if 0 < length hitTestResults
                  then (let hit = hitTestResults ! 0
                        in case getPose hit referenceSpace of
                             Inl e \<Rightarrow> (Inl e, m1)
                           | Inr None \<Rightarrow> (Inr (hitResults m1), m1)
                           | Inr (Some mat) \<Rightarrow>
                               (let m2 = m1\<lparr>hitMatrix := mat\<rparr>;
                                    m3 = m2\<lparr>hitResults := hitResults m2 @
                                            [\<lparr>position = setFromMatrixPosition (hitMatrix m2),
                                              rotation = setFromRotationMatrix (hitMatrix m2),
                                              matrix = hitMatrix m2\<rparr>]\<rparr>
                                in (Inr (hitResults m3), m3)))
                  else (Inr (hitResults m1), m1)))"

text \<open>\<open>dispose()\<close>: a source at hand is cancelled and dropped, the flag is reset.\<close>

definition dispose ::
  "('src, 'q, 'm) hitTestManager \<Rightarrow> ('sp, 'src) event list \<Rightarrow>
   ('src, 'q, 'm) hitTestManager \<times> ('sp, 'src) event list" where
  "dispose m tr =
     (case hitTestSource m of
        Some src \<Rightarrow>
          (m\<lparr>hitTestSource := None, hitTestSourceRequested := False\<rparr>, tr @ [Cancelled src])
      | None \<Rightarrow> (m\<lparr>hitTestSourceRequested := False\<rparr>, tr))"

section \<open>The page script\<close>

text \<open>
  The globals of \<open>app.js\<close> that the handlers read and write: the flag \<open>measuring\<close>, the two
  helpers, the text of the distance readout and whether the measure button is disabled
  (its caption is left out).
\<close>

record ('src, 'q, 'm) app =
  measuring :: bool
  hitTestManager :: "('src, 'q, 'm) hitTestManager"
  measurementHelper :: measurementHelper
  distanceValue :: string
  measureButtonDisabled :: bool

text \<open>
  \<open>onSelect(event)\<close>: only while measuring and with a hit at hand the first hit's position
  is added; at a count of exactly two the distance in centimetres is shown with two
  decimals and measuring ends.
\<close>

definition onSelect :: "(real \<Rightarrow> string) \<Rightarrow> ('src, 'q, 'm) app \<Rightarrow> ('src, 'q, 'm) app" where
  "onSelect numberToString a =
     (if \<not> measuring a then a
      else if 0 < length (hitResults (hitTestManager a))
      then (let hit = hitResults (hitTestManager a) ! 0;
                (pointCount, h) = addPoint numberToString (position hit) (measurementHelper a);
                a1 = a\<lparr>measurementHelper := h\<rparr>
            in if pointCount = 2
               then (let p1 = points (measurementHelper a1) ! 0;
                         p2 = points (measurementHelper a1) ! 1;
                         distance = fmul (distanceTo p1 p2) (toDouble 100)
                     in a1\<lparr>distanceValue := toFixed numberToString 2 distance,
                           measuring := False,
                           measureButtonDisabled := False\<rparr>)
               else a1)
      else a)"

text \<open>\<open>startMeasuring()\<close> and \<open>resetMeasuring()\<close>: both clear the helper.\<close>

definition startMeasuring :: "('src, 'q, 'm) app \<Rightarrow> ('src, 'q, 'm) app" where
  "startMeasuring a =
     a\<lparr>measuring := True,
       measurementHelper := clear (measurementHelper a),
       measureButtonDisabled := True\<rparr>"

definition resetMeasuring :: "('src, 'q, 'm) app \<Rightarrow> ('src, 'q, 'm) app" where
  "resetMeasuring a =
     a\<lparr>measuring := False,
       measurementHelper := clear (measurementHelper a),
       distanceValue := ''0.00'',
       measureButtonDisabled := False\<rparr>"

text \<open>
  The sentence of the specification on the place of the label, as a predicate on a created
  primitive: it is a sprite, and it stands at the midpoint of the two points.
\<close>

definition labelAtMidpoint :: "vector3 \<Rightarrow> vector3 \<Rightarrow> object3D \<Rightarrow> bool" where
  "labelAtMidpoint p1 p2 ob =
     (case prim ob of
        Sprite t pos \<Rightarrow> pos = multiplyScalar (addVectors p1 p2) (toDouble 0.5)
      | _ \<Rightarrow> False)"


definition measuringApp :: "(nat, nat, nat) app" where
  "measuringApp =
     \<lparr>measuring = True,
      hitTestManager =
        \<lparr>hitTestSource = Some 0, hitTestSourceRequested = True, hitMatrix = 0,
         hitResults = [\<lparr>position = Vector3 (Num 0) (Num 0) (Num (- 2)), rotation = 0, matrix = 0\<rparr>]\<rparr>,
      measurementHelper = snd (addPoint noExponent (Vector3 (Num 0) (Num 0) (Num (- 1))) (newMeasurementHelper 0 {})),
      distanceValue = ''0.00'',
      measureButtonDisabled = True\<rparr>"

text \<open>
  Sessions, frames and managers for the examples. Spaces, sources and matrices are
  numbers there; a matrix \<open>k\<close> decomposes into the position \<open>(0, 0, -k)\<close> and the
  rotation \<open>k\<close>.
\<close>

definition goodSession :: "(nat, nat) xrSession" where
  "goodSession =
     \<lparr>supportedFeatures = Some [''hit-test''],
      requestReferenceSpace = (\<lambda>kind. Inr 1),
      xrRequestHitTestSource = (\<lambda>space. Inr 7)\<rparr>"

definition noFeatureSession :: "(nat, nat) xrSession" where
  "noFeatureSession = goodSession\<lparr>supportedFeatures := None\<rparr>"

definition noSpaceSession :: "(nat, nat) xrSession" where
  "noSpaceSession =
     goodSession\<lparr>requestReferenceSpace := (\<lambda>kind. Inl (JsError ''NotSupportedError''))\<rparr>"

definition noSourceSession :: "(nat, nat) xrSession" where
  "noSourceSession =
     goodSession\<lparr>xrRequestHitTestSource := (\<lambda>space. Inl (JsError ''NotSupportedError''))\<rparr>"

definition acquiredManager :: "(nat, nat, nat) hitTestManager" where
  "acquiredManager =
     \<lparr>hitTestSource = Some 7, hitTestSourceRequested = True, hitMatrix = 0, hitResults = []\<rparr>"

definition matrixPosition :: "nat \<Rightarrow> vector3" where
  "matrixPosition k = Vector3 (Num 0) (Num 0) (Num (- real k))"

definition matrixRotation :: "nat \<Rightarrow> nat" where
  "matrixRotation k = k"

definition hitWith :: "nat option \<Rightarrow> (nat, nat) xrHitTestResult" where
  "hitWith pose = \<lparr>getPose = (\<lambda>space. Inr pose)\<rparr>"

definition frameWith :: "(nat, nat) xrHitTestResult list \<Rightarrow> (nat, nat, nat) xrFrame" where
  "frameWith hits = \<lparr>xrGetHitTestResults = (\<lambda>source. Inr hits)\<rparr>"

definition throwingFrame :: "(nat, nat, nat) xrFrame" where
  "throwingFrame = \<lparr>xrGetHitTestResults = (\<lambda>source. Inl (JsError ''InvalidStateError''))\<rparr>"

section \<open>What addPoint builds\<close>

lemma next_ids: "n + 3 = Suc (Suc (Suc n))" "n + 4 = Suc (Suc (Suc (Suc n)))"
  by simp_all

lemma createLineSegment_eq:
  "createLineSegment nts p1 p2 s =
     (distanceTo p1 p2,
      s\<lparr>objectId := objectId s + 2,
        scene := insert (labelOf nts (objectId s + 1) p1 p2)
                   (insert (lineOf (objectId s) p1 p2) (scene s)),
        lineSegments := lineSegments s @ [lineOf (objectId s) p1 p2],
        markers := markers s @ [labelOf nts (objectId s + 1) p1 p2]\<rparr>)"
  by (simp add: createLineSegment_def createTextLabel_def scene_add_def labelOf_def lineOf_def
      Let_def)

lemma addPoint_first:
  "points s = [] \<Longrightarrow>
   addPoint nts p s =
     (1, s\<lparr>objectId := objectId s + 1,
           scene := insert (markerOf (objectId s) p) (scene s),
           points := [p],
           markers := markers s @ [markerOf (objectId s) p]\<rparr>)"
  by (simp add: addPoint_def scene_add_def markerOf_def Let_def)

lemma addPoint_next:
  "points s \<noteq> [] \<Longrightarrow>
   addPoint nts p s =
     (length (points s) + 1,
      s\<lparr>objectId := objectId s + 3,
        scene := insert (labelOf nts (objectId s + 2) (last (points s)) p)
                   (insert (lineOf (objectId s + 1) (last (points s)) p)
                      (insert (markerOf (objectId s) p) (scene s))),
        points := points s @ [p],
        markers := markers s @ [markerOf (objectId s) p,
                                labelOf nts (objectId s + 2) (last (points s)) p],
        lineSegments := lineSegments s @ [lineOf (objectId s + 1) (last (points s)) p]\<rparr>)"
  apply (cases "points s" rule: rev_cases)
   apply simp
  apply (simp add: addPoint_def scene_add_def markerOf_def Let_def createLineSegment_eq nth_append)
  done

lemma completed_eq:
  "completed nts n sc p1 p2 =
     \<lparr>objectId = n + 4,
      scene = insert (labelOf nts (n + 3) p1 p2)
                (insert (lineOf (n + 2) p1 p2)
                   (insert (markerOf (n + 1) p2) (insert (markerOf n p1) sc))),
      points = [p1, p2],
      markers = [markerOf n p1, markerOf (n + 1) p2, labelOf nts (n + 3) p1 p2],
      lineSegments = [lineOf (n + 2) p1 p2]\<rparr>"
  by (simp add: completed_def newMeasurementHelper_def addPoint_first addPoint_next next_ids)

lemma marker_neq_label: "markerOf i p \<noteq> labelOf nts j q r"
  by (simp add: markerOf_def labelOf_def)

lemma line_neq_label: "lineOf i p q \<noteq> labelOf nts j r t"
  by (simp add: lineOf_def labelOf_def)

lemma marker_neq_line: "markerOf i p \<noteq> lineOf j q r"
  by (simp add: markerOf_def lineOf_def)

lemma markerOf_eq_iff: "markerOf i p = markerOf j q \<longleftrightarrow> i = j \<and> p = q"
  by (auto simp add: markerOf_def)

text \<open>
  C4. From the empty session the first \<open>addPoint\<close> returns 1, appends the point, creates
  the one marker of that point (in \<open>markers\<close> and in the scene) and no segment; the second
  returns 2, appends the point and creates exactly one segment, the line between the two
  points with its label, so that \<open>lineSegments\<close> has length 1 after the two calls.
\<close>

theorem addPoint_two_calls:
  "fst (addPoint nts p1 (newMeasurementHelper n sc)) = 1 \<and>
   points (snd (addPoint nts p1 (newMeasurementHelper n sc))) = [p1] \<and>
   markers (snd (addPoint nts p1 (newMeasurementHelper n sc))) = [markerOf n p1] \<and>
   lineSegments (snd (addPoint nts p1 (newMeasurementHelper n sc))) = [] \<and>
   scene (snd (addPoint nts p1 (newMeasurementHelper n sc))) = insert (markerOf n p1) sc \<and>
   fst (addPoint nts p2 (snd (addPoint nts p1 (newMeasurementHelper n sc)))) = 2 \<and>
   points (snd (addPoint nts p2 (snd (addPoint nts p1 (newMeasurementHelper n sc))))) = [p1, p2] \<and>
   lineSegments (snd (addPoint nts p2 (snd (addPoint nts p1 (newMeasurementHelper n sc)))))
     = [lineOf (n + 2) p1 p2] \<and>
   length (lineSegments (snd (addPoint nts p2 (snd (addPoint nts p1 (newMeasurementHelper n sc))))))
     = 1 \<and>
   markers (snd (addPoint nts p2 (snd (addPoint nts p1 (newMeasurementHelper n sc)))))
     = [markerOf n p1, markerOf (n + 1) p2, labelOf nts (n + 3) p1 p2] \<and>
   scene (snd (addPoint nts p2 (snd (addPoint nts p1 (newMeasurementHelper n sc)))))
     = insert (markerOf n p1) sc \<union>
       {markerOf (n + 1) p2, lineOf (n + 2) p1 p2, labelOf nts (n + 3) p1 p2}"
  by (auto simp add: newMeasurementHelper_def addPoint_first addPoint_next next_ids)

section \<open>Undoing the last measurement\<close>

text \<open>
  C3. After the second \<open>addPoint\<close> has completed a pair, \<open>markers\<close> holds three primitives:
  the two point markers and, last, the sprite of the distance label. The next
  \<open>removeLastMeasurement\<close> therefore pops the label and removes it from the scene; the
  marker of the second point stays in \<open>markers\<close> and in the scene.
\<close>

theorem label_is_last_marker:
  "markers (completed nts n sc p1 p2)
     = [markerOf n p1, markerOf (n + 1) p2, labelOf nts (n + 3) p1 p2] \<and>
   last (markers (completed nts n sc p1 p2)) = labelOf nts (n + 3) p1 p2 \<and>
   markers (removeLastMeasurement (completed nts n sc p1 p2))
     = [markerOf n p1, markerOf (n + 1) p2] \<and>
   scene (removeLastMeasurement (completed nts n sc p1 p2))
     = scene (completed nts n sc p1 p2) - {labelOf nts (n + 3) p1 p2} \<and>
   labelOf nts (n + 3) p1 p2 \<notin> scene (removeLastMeasurement (completed nts n sc p1 p2)) \<and>
   markerOf (n + 1) p2 \<in> scene (removeLastMeasurement (completed nts n sc p1 p2))"
  by (simp add: completed_eq removeLastMeasurement_def scene_remove_def Let_def
      marker_neq_label)

text \<open>
  C1. The claim: from the completed state (2 points, 1 segment) one
  \<open>removeLastMeasurement\<close> leaves 1 point and 0 segments, a second one 0 points and 0
  segments with the remaining marker removed. The code at that state: the first call pops
  the label, the number of points (2) is even, so the line stays in \<open>lineSegments\<close> and in
  the scene, and the marker of the second point stays as well: 1 point, 1 segment. The
  second call removes the marker of the second point and the line; the marker of the first
  point remains in \<open>markers\<close> and in the scene with no point left.
\<close>

theorem undo_after_complete_keeps_line:
  "points (removeLastMeasurement (completed nts n sc p1 p2)) = [p1] \<and>
   lineSegments (removeLastMeasurement (completed nts n sc p1 p2)) = [lineOf (n + 2) p1 p2] \<and>
   length (lineSegments (removeLastMeasurement (completed nts n sc p1 p2))) = 1 \<and>
   markers (removeLastMeasurement (completed nts n sc p1 p2))
     = [markerOf n p1, markerOf (n + 1) p2] \<and>
   lineOf (n + 2) p1 p2 \<in> scene (removeLastMeasurement (completed nts n sc p1 p2)) \<and>
   points (removeLastMeasurement (removeLastMeasurement (completed nts n sc p1 p2))) = [] \<and>
   lineSegments (removeLastMeasurement (removeLastMeasurement (completed nts n sc p1 p2))) = [] \<and>
   markers (removeLastMeasurement (removeLastMeasurement (completed nts n sc p1 p2)))
     = [markerOf n p1] \<and>
   markerOf n p1 \<in> scene (removeLastMeasurement (removeLastMeasurement (completed nts n sc p1 p2)))"
  by (simp add: completed_eq removeLastMeasurement_def scene_remove_def Let_def
      marker_neq_label line_neq_label marker_neq_line markerOf_eq_iff)

section \<open>The segment invariant\<close>

lemma segmentInvariant_new: "segmentInvariant (newMeasurementHelper n sc)"
  by (simp add: segmentInvariant_def newMeasurementHelper_def)

lemma segmentInvariant_addPoint:
  "segmentInvariant s \<Longrightarrow> segmentInvariant (snd (addPoint nts p s))"
  by (cases "points s = []") (auto simp add: segmentInvariant_def addPoint_first addPoint_next)

lemma segmentInvariant_clear: "segmentInvariant (clear s)"
  by (simp add: segmentInvariant_def clear_def Let_def)

text \<open>
  C2. The claim: after every operation of every sequence of \<open>addPoint\<close>,
  \<open>removeLastMeasurement\<close> and \<open>clear\<close> from the empty session, the number of segments is
  the number of points less one (zero without points). \<open>addPoint\<close> and \<open>clear\<close> keep it
  (the three lemmas above); \<open>removeLastMeasurement\<close> does not: after two points and one
  undo there is one point and still one segment.
\<close>

theorem undo_breaks_segmentInvariant:
  "\<not> segmentInvariant
        (run nts [AddPoint p1, AddPoint p2, RemoveLast] (newMeasurementHelper n sc))"
  by (simp add: segmentInvariant_def newMeasurementHelper_def addPoint_first addPoint_next
      removeLastMeasurement_def scene_remove_def Let_def)

section \<open>clear\<close>

lemma fold_scene_remove: "fold scene_remove xs sc = sc - set xs"
  by (induction xs arbitrary: sc) (auto simp add: scene_remove_def)

lemma clear_eq:
  "clear s = s\<lparr>scene := scene s - (set (markers s) \<union> set (lineSegments s)),
               points := [], markers := [], lineSegments := []\<rparr>"
  by (simp add: clear_def Let_def fold_scene_remove Diff_eq Int_assoc)

text \<open>
  Whatever the session has put into the scene is still in \<open>markers\<close> or \<open>lineSegments\<close>:
  the scene holds nothing beyond what it held at the start (\<open>sc\<close>) and those two lists.
\<close>

lemma owned_addPoint:
  "scene s \<subseteq> sc \<union> set (markers s) \<union> set (lineSegments s) \<Longrightarrow>
   scene (snd (addPoint nts p s))
     \<subseteq> sc \<union> set (markers (snd (addPoint nts p s))) \<union> set (lineSegments (snd (addPoint nts p s)))"
  by (cases "points s = []") (auto simp add: addPoint_first addPoint_next)

lemma set_butlast_last: "xs \<noteq> [] \<Longrightarrow> set xs \<subseteq> insert (last xs) (set (butlast xs))"
  by (induction xs) auto

lemma owned_removeLast:
  assumes "scene s \<subseteq> sc \<union> set (markers s) \<union> set (lineSegments s)"
  shows "scene (removeLastMeasurement s)
     \<subseteq> sc \<union> set (markers (removeLastMeasurement s)) \<union> set (lineSegments (removeLastMeasurement s))"
proof -
  have m: "markers s \<noteq> [] \<Longrightarrow> set (markers s) \<subseteq> insert (last (markers s)) (set (butlast (markers s)))"
    by (rule set_butlast_last)
  have l: "lineSegments s \<noteq> [] \<Longrightarrow>
      set (lineSegments s) \<subseteq> insert (last (lineSegments s)) (set (butlast (lineSegments s)))"
    by (rule set_butlast_last)
  show ?thesis
    using assms m l
    by (auto simp add: removeLastMeasurement_def scene_remove_def Let_def) blast+
qed

lemma owned_clear:
  "scene s \<subseteq> sc \<union> set (markers s) \<union> set (lineSegments s) \<Longrightarrow>
   scene (clear s) \<subseteq> sc \<union> set (markers (clear s)) \<union> set (lineSegments (clear s))"
  by (auto simp add: clear_eq)

lemma owned_run:
  "scene s \<subseteq> sc \<union> set (markers s) \<union> set (lineSegments s) \<Longrightarrow>
   scene (run nts ops s)
     \<subseteq> sc \<union> set (markers (run nts ops s)) \<union> set (lineSegments (run nts ops s))"
proof (induction ops arbitrary: s)
  case Nil
  then show ?case by simp
next
  case (Cons op ops)
  have "scene (exec nts op s)
     \<subseteq> sc \<union> set (markers (exec nts op s)) \<union> set (lineSegments (exec nts op s))"
    using Cons.prems by (cases op) (simp_all add: owned_addPoint owned_removeLast owned_clear)
  then show ?case using Cons.IH by simp
qed

text \<open>
  C10. \<open>clear()\<close> from any state empties \<open>points\<close>, \<open>markers\<close> and \<open>lineSegments\<close> and
  takes every primitive of \<open>markers\<close> (point markers and labels) and of \<open>lineSegments\<close>
  out of the scene; a second call in a row changes nothing. After any run of operations
  on a new helper the scene after \<open>clear()\<close> holds only what it held before the helper
  was made, so nothing at all when it started empty.
\<close>

theorem clear_idempotent:
  "points (clear s) = [] \<and> markers (clear s) = [] \<and> lineSegments (clear s) = [] \<and>
   scene (clear s) = scene s - (set (markers s) \<union> set (lineSegments s)) \<and>
   scene (clear s) \<inter> (set (markers s) \<union> set (lineSegments s)) = {} \<and>
   clear (clear s) = clear s \<and>
   scene (clear (run nts ops (newMeasurementHelper n sc))) \<subseteq> sc \<and>
   scene (clear (clear (run nts ops (newMeasurementHelper n {})))) = {}"
proof -
  have own: "scene (run nts ops (newMeasurementHelper n sc'))
      \<subseteq> sc' \<union> set (markers (run nts ops (newMeasurementHelper n sc')))
          \<union> set (lineSegments (run nts ops (newMeasurementHelper n sc')))" for sc'
    by (rule owned_run) (simp add: newMeasurementHelper_def)
  have a: "scene (clear (run nts ops (newMeasurementHelper n sc'))) \<subseteq> sc'" for sc'
    using own [of sc'] by (auto simp add: clear_eq)
  show ?thesis
    using a [of sc] a [of "{}"] by (auto simp add: clear_eq)
qed

section \<open>addPoint past the second point\<close>



section \<open>Rounding to double\<close>

lemma roundTiesToEven_int: "roundTiesToEven (of_int m) = m"
  by (simp add: roundTiesToEven_def)

lemma roundTiesToEven_close: "\<bar>of_int (roundTiesToEven t) - t\<bar> \<le> 1 / 2"
  unfolding roundTiesToEven_def Let_def by (auto; linarith)

lemma exponent_bounds:
  assumes "x \<noteq> 0"
  shows "2 powr of_int \<lfloor>log 2 \<bar>x\<bar>\<rfloor> \<le> \<bar>x\<bar>" "\<bar>x\<bar> < 2 powr (of_int \<lfloor>log 2 \<bar>x\<bar>\<rfloor> + 1)"
proof -
  have "0 < \<bar>x\<bar>" using assms by simp
  then have "2 powr of_int \<lfloor>log 2 \<bar>x\<bar>\<rfloor> \<le> \<bar>x\<bar> \<and> \<bar>x\<bar> < 2 powr (of_int \<lfloor>log 2 \<bar>x\<bar>\<rfloor> + 1)"
    using floor_log_eq_powr_iff [of "\<bar>x\<bar>" 2 "\<lfloor>log 2 \<bar>x\<bar>\<rfloor>"] by simp
  then show "2 powr of_int \<lfloor>log 2 \<bar>x\<bar>\<rfloor> \<le> \<bar>x\<bar>" "\<bar>x\<bar> < 2 powr (of_int \<lfloor>log 2 \<bar>x\<bar>\<rfloor> + 1)"
    by simp_all
qed

lemma toDouble_bound:
  assumes lo: "2 powr (- 1022) \<le> \<bar>x\<bar>" and hi: "\<bar>x\<bar> \<le> 2 ^ 1023"
  shows "\<exists>y. toDouble x = Num y \<and> \<bar>y - x\<bar> \<le> \<bar>x\<bar> / 2 ^ 53"
proof -
  define e where "e = \<lfloor>log 2 \<bar>x\<bar>\<rfloor>"
  define u :: real where "u = 2 powr (of_int e - 52)"
  define y :: real where "y = of_int (roundTiesToEven (x / u)) * u"
  have pos: "0 < \<bar>x\<bar>"
    using lo by (smt (verit) powr_gt_zero)
  then have x0: "x \<noteq> 0" by auto
  have e1: "2 powr of_int e \<le> \<bar>x\<bar>" and e2: "\<bar>x\<bar> < 2 powr (of_int e + 1)"
    using exponent_bounds [OF x0] by (simp_all add: e_def)
  have "2 powr (- 1022) < (2::real) powr (of_int e + 1)"
    using lo e2 by linarith
  then have "- 1022 < of_int e + (1::real)" by simp
  then have elo: "- 1022 \<le> e" by linarith
  then have m: "max e (- 1022) = e" by simp
  have upos: "0 < u" by (simp add: u_def)
  have "\<bar>of_int (roundTiesToEven (x / u)) - x / u\<bar> \<le> 1 / 2"
    by (rule roundTiesToEven_close)
  then have "\<bar>of_int (roundTiesToEven (x / u)) - x / u\<bar> * u \<le> 1 / 2 * u"
    using upos by (simp add: mult_right_mono)
  moreover have "\<bar>of_int (roundTiesToEven (x / u)) - x / u\<bar> * u = \<bar>y - x\<bar>"
  proof -
    have "\<bar>of_int (roundTiesToEven (x / u)) - x / u\<bar> * u
        = \<bar>(of_int (roundTiesToEven (x / u)) - x / u) * u\<bar>"
      using upos by (simp add: abs_mult)
    also have "(of_int (roundTiesToEven (x / u)) - x / u) * u = y - x"
      using upos by (simp add: y_def algebra_simps)
    finally show ?thesis .
  qed
  ultimately have d: "\<bar>y - x\<bar> \<le> u / 2" by simp
  have "u = 2 powr of_int e / 2 ^ 52"
    by (simp add: u_def powr_diff)
  then have "u / 2 = 2 powr of_int e / 2 ^ 53" by simp
  also have "\<dots> \<le> \<bar>x\<bar> / 2 ^ 53"
    using e1 by (simp add: divide_right_mono)
  finally have u2: "u / 2 \<le> \<bar>x\<bar> / 2 ^ 53" .
  have err: "\<bar>y - x\<bar> \<le> \<bar>x\<bar> / 2 ^ 53"
    using d u2 by linarith
  have "\<bar>y\<bar> \<le> \<bar>x\<bar> + \<bar>x\<bar> / 2 ^ 53"
    using err by linarith
  also have "\<dots> \<le> 2 ^ 1023 + 2 ^ 1023 / 2 ^ 53"
    using hi by (simp add: add_mono divide_right_mono)
  also have "\<dots> < (2::real) ^ 1024" by simp
  finally have fin: "\<not> 2 ^ 1024 \<le> \<bar>y\<bar>" by simp
  have "toDouble x = Num y"
    using x0 fin unfolding toDouble_def Let_def e_def [symmetric] m u_def [symmetric]
      y_def [symmetric]
    by simp
  with err show ?thesis by blast
qed

lemma toDouble_exact:
  assumes m: "\<bar>m\<bar> < 2 ^ 53" and k: "- 1074 \<le> k"
    and fin: "\<bar>of_int m * 2 powr of_int k\<bar> < (2::real) ^ 1024"
  shows "toDouble (of_int m * 2 powr of_int k) = Num (of_int m * 2 powr of_int k)"
proof (cases "m = 0")
  case True
  then show ?thesis by (simp add: toDouble_def)
next
  case False
  define x :: real where "x = of_int m * 2 powr of_int k"
  define e where "e = max \<lfloor>log 2 \<bar>x\<bar>\<rfloor> (- 1022)"
  define u :: real where "u = 2 powr (of_int e - 52)"
  have x0: "x \<noteq> 0" using False by (simp add: x_def)
  have absx: "\<bar>x\<bar> = of_int \<bar>m\<bar> * 2 powr of_int k"
    by (simp add: x_def abs_mult)
  have "of_int \<bar>m\<bar> < (2::real) ^ 53"
    using m by (metis of_int_less_numeral_power_cancel_iff)
  then have "\<bar>x\<bar> < 2 ^ 53 * 2 powr of_int k"
    unfolding absx by (simp add: mult_strict_right_mono)
  also have "\<dots> = 2 powr (53 + of_int k)"
    by (simp add: powr_add)
  finally have up: "\<bar>x\<bar> < 2 powr (53 + of_int k)" .
  have "2 powr of_int \<lfloor>log 2 \<bar>x\<bar>\<rfloor> < (2::real) powr (53 + of_int k)"
    using exponent_bounds(1) [OF x0] up by linarith
  then have "of_int \<lfloor>log 2 \<bar>x\<bar>\<rfloor> < 53 + (of_int k :: real)" by simp
  then have "\<lfloor>log 2 \<bar>x\<bar>\<rfloor> - 52 \<le> k" by linarith
  then have ek: "e - 52 \<le> k" using k by (simp add: e_def)
  define j where "j = nat (k - (e - 52))"
  have kj: "of_int k = (of_int e - 52) + real j"
    using ek by (simp add: j_def)
  have "2 powr of_int k = 2 powr (of_int e - 52) * 2 powr real j"
    unfolding kj by (simp add: powr_add)
  then have pk: "2 powr of_int k = u * 2 ^ j"
    by (simp add: u_def powr_realpow)
  have upos: "0 < u" by (simp add: u_def)
  have "x / u = of_int m * 2 ^ j"
    using upos by (simp add: x_def pk)
  then have q: "x / u = of_int (m * 2 ^ j)" by simp
  have "of_int (roundTiesToEven (x / u)) * u = x"
    unfolding q roundTiesToEven_int using upos by (simp add: x_def pk)
  moreover have "\<not> 2 ^ 1024 \<le> \<bar>x\<bar>"
    using fin by (simp add: x_def)
  ultimately show ?thesis
    using x0
    unfolding x_def [symmetric] toDouble_def Let_def e_def [symmetric] u_def [symmetric]
    by simp
qed

lemma toDouble_int: "\<bar>m\<bar> < 2 ^ 53 \<Longrightarrow> toDouble (of_int m) = Num (of_int m)"
proof -
  assume m: "\<bar>m\<bar> < 2 ^ 53"
  then have "\<bar>of_int m :: real\<bar> < 2 ^ 53"
    by (metis of_int_abs of_int_less_numeral_power_cancel_iff)
  then have "\<bar>of_int m * 2 powr of_int 0\<bar> < (2::real) ^ 1024"
    by (simp add: order_less_trans [where y = "2 ^ 53"])
  from toDouble_exact [OF m _ this] show ?thesis by simp
qed

lemma tiny: "2 powr (- 1022) = 1 / (2::real) ^ 1022"
  by (simp add: powr_minus_divide)

text \<open>
  Rounding a value that is zero or in the normal range: the result is a number within the
  relative error \<open>2^-53\<close>.
\<close>

lemma toDouble_normal:
  assumes "x = 0 \<or> (1 / 2 ^ 1022 \<le> x \<and> x \<le> 2 ^ 1023)"
  shows "\<exists>y. toDouble x = Num y \<and> (1 - 1 / 2 ^ 53) * x \<le> y \<and> y \<le> (1 + 1 / 2 ^ 53) * x"
proof (cases "x = 0")
  case True
  then show ?thesis by (simp add: toDouble_def)
next
  case False
  then have r: "1 / 2 ^ 1022 \<le> x" "x \<le> 2 ^ 1023" using assms by auto
  then have p: "0 < x" by (smt (verit) divide_pos_pos zero_less_power)
  have "2 powr (- 1022) \<le> \<bar>x\<bar>" "\<bar>x\<bar> \<le> 2 ^ 1023"
    using r p unfolding tiny by simp_all
  from toDouble_bound [OF this] obtain y where
    y: "toDouble x = Num y" "\<bar>y - x\<bar> \<le> \<bar>x\<bar> / 2 ^ 53" by blast
  have "\<bar>y - x\<bar> \<le> x / 2 ^ 53" using y(2) p by simp
  then have "x - x / 2 ^ 53 \<le> y" "y \<le> x + x / 2 ^ 53"
    by linarith+
  then have "(1 - 1 / 2 ^ 53) * x \<le> y \<and> y \<le> (1 + 1 / 2 ^ 53) * x"
    by (simp add: algebra_simps)
  with y(1) show ?thesis by blast
qed

lemma roundoff_pos: "0 < roundoff" and roundoff_half: "roundoff \<le> 1 / 2"
  by (simp_all add: roundoff_def)

lemma toDouble_rel:
  assumes "x = 0 \<or> (1 / 2 ^ 1022 \<le> x \<and> x \<le> 2 ^ 1023)"
  shows "\<exists>y. toDouble x = Num y \<and> (1 - roundoff) * x \<le> y \<and> y \<le> (1 + roundoff) * x"
  using toDouble_normal [OF assms] by (simp add: roundoff_def)

lemma square_step:
  assumes "t = 0 \<or> (1 / 2 ^ 500 \<le> \<bar>t\<bar> \<and> \<bar>t\<bar> \<le> 2 ^ 500)"
  shows "\<exists>X. fmul (toDouble t) (toDouble t) = Num X \<and>
           (1 - roundoff) ^ 3 * t\<^sup>2 \<le> X \<and> X \<le> (1 + roundoff) ^ 3 * t\<^sup>2 \<and>
           (X = 0 \<or> (1 / 2 ^ 1003 \<le> X \<and> X \<le> 2 ^ 1003))"
proof (cases "t = 0")
  case True
  then show ?thesis by (simp add: toDouble_def)
next
  case False
  define lo where "lo = 1 - roundoff"
  define hi where "hi = 1 + roundoff"
  have lo: "1 / 2 \<le> lo" "lo \<le> 1" and hi: "1 \<le> hi" "hi \<le> 2"
    using roundoff_pos roundoff_half by (simp_all add: lo_def hi_def)
  from False assms have r: "1 / 2 ^ 500 \<le> \<bar>t\<bar>" "\<bar>t\<bar> \<le> 2 ^ 500" by auto
  have "(1::real) / 2 ^ 1022 \<le> 1 / 2 ^ 500" by simp
  then have "2 powr (- 1022) \<le> \<bar>t\<bar>"
    unfolding tiny using r(1) by linarith
  moreover have "\<bar>t\<bar> \<le> 2 ^ 1023"
    using r(2) by (rule order_trans) simp
  ultimately obtain x where x: "toDouble t = Num x" "\<bar>x - t\<bar> \<le> \<bar>t\<bar> / 2 ^ 53"
    using toDouble_bound by blast
  have "\<bar>x - t\<bar> \<le> roundoff * \<bar>t\<bar>"
    using x(2) by (simp add: roundoff_def)
  then have ax: "lo * \<bar>t\<bar> \<le> \<bar>x\<bar>" "\<bar>x\<bar> \<le> hi * \<bar>t\<bar>"
    unfolding lo_def hi_def by (simp_all add: algebra_simps)
  have t2: "1 / 2 ^ 1000 \<le> t\<^sup>2" "t\<^sup>2 \<le> 2 ^ 1000"
  proof -
    have "(1 / 2 ^ 500)\<^sup>2 \<le> \<bar>t\<bar>\<^sup>2"
      using r(1) by (intro power_mono) simp_all
    then show "1 / 2 ^ 1000 \<le> t\<^sup>2" by (simp add: power_divide)
    have "\<bar>t\<bar>\<^sup>2 \<le> (2 ^ 500)\<^sup>2"
      using r(2) by (intro power_mono) simp_all
    then show "t\<^sup>2 \<le> 2 ^ 1000" by simp
  qed
  have q1: "lo\<^sup>2 * t\<^sup>2 \<le> x * x"
  proof -
    have "(lo * \<bar>t\<bar>)\<^sup>2 \<le> \<bar>x\<bar>\<^sup>2"
      using ax(1) lo by (intro power_mono) simp_all
    then have "lo\<^sup>2 * t\<^sup>2 \<le> x\<^sup>2" by (simp add: power_mult_distrib)
    then show ?thesis by (simp add: power2_eq_square [of x])
  qed
  have q2: "x * x \<le> hi\<^sup>2 * t\<^sup>2"
  proof -
    have "\<bar>x\<bar>\<^sup>2 \<le> (hi * \<bar>t\<bar>)\<^sup>2"
      using ax(2) by (intro power_mono) simp_all
    then have "x\<^sup>2 \<le> hi\<^sup>2 * t\<^sup>2" by (simp add: power_mult_distrib)
    then show ?thesis by (simp add: power2_eq_square [of x])
  qed
  have lo2: "1 / 4 \<le> lo\<^sup>2"
  proof -
    have "(1 / 2)\<^sup>2 \<le> lo\<^sup>2" using lo by (intro power_mono) simp_all
    then show ?thesis by (simp add: power2_eq_square)
  qed
  have hi2: "hi\<^sup>2 \<le> 4"
  proof -
    have "hi\<^sup>2 \<le> 2\<^sup>2" using hi by (intro power_mono) simp_all
    then show ?thesis by simp
  qed
  have tpos: "0 \<le> t\<^sup>2" by simp
  have ql: "1 / 2 ^ 1002 \<le> x * x"
  proof -
    have "1 / 4 * (1 / 2 ^ 1000) \<le> lo\<^sup>2 * t\<^sup>2"
      using lo2 t2(1) by (intro mult_mono) simp_all
    then show ?thesis using q1 by simp
  qed
  have qh: "x * x \<le> 2 ^ 1002"
  proof -
    have "hi\<^sup>2 * t\<^sup>2 \<le> 4 * 2 ^ 1000"
      using hi2 t2(2) by (intro mult_mono) simp_all
    then show ?thesis using q2 by simp
  qed
  have "x * x = 0 \<or> (1 / 2 ^ 1022 \<le> x * x \<and> x * x \<le> 2 ^ 1023)"
  proof -
    have "(1::real) / 2 ^ 1022 \<le> 1 / 2 ^ 1002" "(2::real) ^ 1002 \<le> 2 ^ 1023" by simp_all
    then show ?thesis using ql qh by linarith
  qed
  from toDouble_rel [OF this] obtain X where
    X: "toDouble (x * x) = Num X" "lo * (x * x) \<le> X" "X \<le> hi * (x * x)"
    unfolding lo_def hi_def by blast
  have f: "fmul (toDouble t) (toDouble t) = Num X"
    by (simp add: x(1) X(1))
  have b1: "lo ^ 3 * t\<^sup>2 \<le> X"
  proof -
    have "lo * (lo\<^sup>2 * t\<^sup>2) \<le> lo * (x * x)"
      using q1 lo by (intro mult_left_mono) simp_all
    then show ?thesis using X(2) by (simp add: power3_eq_cube power2_eq_square [of lo] mult.assoc)
  qed
  have b2: "X \<le> hi ^ 3 * t\<^sup>2"
  proof -
    have "hi * (x * x) \<le> hi * (hi\<^sup>2 * t\<^sup>2)"
      using q2 hi by (intro mult_left_mono) simp_all
    then show ?thesis using X(3) by (simp add: power3_eq_cube power2_eq_square [of hi] mult.assoc)
  qed
  have xx: "0 \<le> x * x" by simp
  have r1: "1 / 2 ^ 1003 \<le> X"
  proof -
    have "1 / 2 * (1 / 2 ^ 1002) \<le> lo * (x * x)"
      using lo(1) ql by (intro mult_mono) simp_all
    then show ?thesis using X(2) by simp
  qed
  have r2: "X \<le> 2 ^ 1003"
  proof -
    have "hi * (x * x) \<le> 2 * 2 ^ 1002"
      using hi qh xx by (intro mult_mono) simp_all
    then show ?thesis using X(3) by simp
  qed
  show ?thesis
    using f b1 b2 r1 r2 unfolding lo_def hi_def by blast
qed

lemma add_step:
  assumes X: "X = 0 \<or> (A \<le> X \<and> X \<le> B)" and Y: "Y = 0 \<or> (A \<le> Y \<and> Y \<le> B)"
    and A: "1 / 2 ^ 1021 \<le> A" and B: "4 * B \<le> 2 ^ 1023"
  shows "\<exists>S. fadd (Num X) (Num Y) = Num S \<and>
           (1 - roundoff) * (X + Y) \<le> S \<and> S \<le> (1 + roundoff) * (X + Y) \<and>
           (S = 0 \<or> (A / 2 \<le> S \<and> S \<le> 4 * B))"
proof -
  have Apos: "0 < A"
    using A by (smt (verit) divide_pos_pos zero_less_power)
  have nn: "0 \<le> X" "0 \<le> Y" using X Y Apos by auto
  have s: "X + Y = 0 \<or> (A \<le> X + Y \<and> X + Y \<le> 2 * B)"
    using X Y nn by auto
  have "(1::real) / 2 ^ 1022 \<le> 1 / 2 ^ 1021" by simp
  then have "X + Y = 0 \<or> (1 / 2 ^ 1022 \<le> X + Y \<and> X + Y \<le> 2 ^ 1023)"
    using s A B nn by linarith
  from toDouble_rel [OF this] obtain S where
    S: "toDouble (X + Y) = Num S" "(1 - roundoff) * (X + Y) \<le> S"
      "S \<le> (1 + roundoff) * (X + Y)" by blast
  have lo: "1 / 2 \<le> 1 - roundoff" and hi: "1 + roundoff \<le> 2"
    using roundoff_half by simp_all
  have r: "S = 0 \<or> (A / 2 \<le> S \<and> S \<le> 4 * B)"
  proof (cases "X + Y = 0")
    case True
    then show ?thesis using S(2,3) by simp
  next
    case False
    then have ab: "A \<le> X + Y" "X + Y \<le> 2 * B" using s by auto
    have "1 / 2 * A \<le> (1 - roundoff) * (X + Y)"
      using lo ab(1) Apos by (intro mult_mono) simp_all
    moreover have "(1 + roundoff) * (X + Y) \<le> 2 * (2 * B)"
      using hi ab(2) nn roundoff_pos by (intro mult_mono) simp_all
    ultimately show ?thesis using S(2,3) by simp
  qed
  show ?thesis using S r by auto
qed

lemma fsub_Num: "fsub (Num a) (Num b) = toDouble (a - b)"
  by (simp add: fsub_def)

lemma sqrt_step:
  assumes "S = 0 \<or> (1 / 2 ^ 1005 \<le> S \<and> S \<le> 2 ^ 1007)"
  shows "\<exists>d. fsqrt (Num S) = Num d \<and>
           (1 - roundoff) * sqrt S \<le> d \<and> d \<le> (1 + roundoff) * sqrt S"
proof -
  have nn: "0 \<le> S"
    using assms by (smt (verit) divide_nonneg_nonneg zero_le_power)
  have "sqrt S = 0 \<or> (1 / 2 ^ 1022 \<le> sqrt S \<and> sqrt S \<le> 2 ^ 1023)"
  proof (cases "S = 0")
    case True
    then show ?thesis by simp
  next
    case False
    then have r: "1 / 2 ^ 1005 \<le> S" "S \<le> 2 ^ 1007" using assms by auto
    have "(1 / 2 ^ 1022)\<^sup>2 \<le> S"
      by (rule order_trans [OF _ r(1)]) (simp add: power_divide)
    then have a: "1 / 2 ^ 1022 \<le> sqrt S"
      by (rule real_le_rsqrt)
    have "S \<le> (2 ^ 1023)\<^sup>2"
      by (rule order_trans [OF r(2)]) simp
    then have b: "sqrt S \<le> 2 ^ 1023"
      by (intro real_le_lsqrt) simp_all
    show ?thesis using a b by simp
  qed
  from toDouble_rel [OF this] show ?thesis
    using nn by simp
qed

lemma distanceTo_tolerance:
  assumes t1: "a1 - b1 = 0 \<or> (1 / 2 ^ 500 \<le> \<bar>a1 - b1\<bar> \<and> \<bar>a1 - b1\<bar> \<le> 2 ^ 500)"
    and t2: "a2 - b2 = 0 \<or> (1 / 2 ^ 500 \<le> \<bar>a2 - b2\<bar> \<and> \<bar>a2 - b2\<bar> \<le> 2 ^ 500)"
    and t3: "a3 - b3 = 0 \<or> (1 / 2 ^ 500 \<le> \<bar>a3 - b3\<bar> \<and> \<bar>a3 - b3\<bar> \<le> 2 ^ 500)"
  shows "\<exists>d. distanceTo (Vector3 (Num a1) (Num a2) (Num a3)) (Vector3 (Num b1) (Num b2) (Num b3))
               = Num d \<and>
             \<bar>d - sqrt ((a1 - b1)\<^sup>2 + (a2 - b2)\<^sup>2 + (a3 - b3)\<^sup>2)\<bar>
               \<le> 5 * roundoff * sqrt ((a1 - b1)\<^sup>2 + (a2 - b2)\<^sup>2 + (a3 - b3)\<^sup>2)"
proof -
  define lo where "lo = 1 - roundoff"
  define hi where "hi = 1 + roundoff"
  define p where "p = (a1 - b1)\<^sup>2"
  define q where "q = (a2 - b2)\<^sup>2"
  define r where "r = (a3 - b3)\<^sup>2"
  have lo: "0 \<le> lo" "lo \<le> 1" and hi: "1 \<le> hi"
    using roundoff_pos roundoff_half by (simp_all add: lo_def hi_def)
  have nn: "0 \<le> p" "0 \<le> q" "0 \<le> r" by (simp_all add: p_def q_def r_def)
  obtain X1 where X1: "fmul (toDouble (a1 - b1)) (toDouble (a1 - b1)) = Num X1"
      "lo ^ 3 * p \<le> X1" "X1 \<le> hi ^ 3 * p" "X1 = 0 \<or> (1 / 2 ^ 1003 \<le> X1 \<and> X1 \<le> 2 ^ 1003)"
    using square_step [OF t1] unfolding lo_def hi_def p_def by blast
  obtain X2 where X2: "fmul (toDouble (a2 - b2)) (toDouble (a2 - b2)) = Num X2"
      "lo ^ 3 * q \<le> X2" "X2 \<le> hi ^ 3 * q" "X2 = 0 \<or> (1 / 2 ^ 1003 \<le> X2 \<and> X2 \<le> 2 ^ 1003)"
    using square_step [OF t2] unfolding lo_def hi_def q_def by blast
  obtain X3 where X3: "fmul (toDouble (a3 - b3)) (toDouble (a3 - b3)) = Num X3"
      "lo ^ 3 * r \<le> X3" "X3 \<le> hi ^ 3 * r" "X3 = 0 \<or> (1 / 2 ^ 1003 \<le> X3 \<and> X3 \<le> 2 ^ 1003)"
    using square_step [OF t3] unfolding lo_def hi_def r_def by blast
  have "(1::real) / 2 ^ 1021 \<le> 1 / 2 ^ 1003" "4 * (2::real) ^ 1003 \<le> 2 ^ 1023" by simp_all
  from add_step [OF X1(4) X2(4) this] obtain S1 where
    S1: "fadd (Num X1) (Num X2) = Num S1" "lo * (X1 + X2) \<le> S1" "S1 \<le> hi * (X1 + X2)"
      "S1 = 0 \<or> (1 / 2 ^ 1003 / 2 \<le> S1 \<and> S1 \<le> 4 * 2 ^ 1003)"
    unfolding lo_def hi_def by blast
  have S1r: "S1 = 0 \<or> (1 / 2 ^ 1004 \<le> S1 \<and> S1 \<le> 2 ^ 1005)"
    using S1(4) by simp
  have X3r: "X3 = 0 \<or> (1 / 2 ^ 1004 \<le> X3 \<and> X3 \<le> 2 ^ 1005)"
  proof -
    have "(1::real) / 2 ^ 1004 \<le> 1 / 2 ^ 1003" "(2::real) ^ 1003 \<le> 2 ^ 1005" by simp_all
    then show ?thesis using X3(4) by linarith
  qed
  have "(1::real) / 2 ^ 1021 \<le> 1 / 2 ^ 1004" "4 * (2::real) ^ 1005 \<le> 2 ^ 1023" by simp_all
  from add_step [OF S1r X3r this] obtain S where
    S: "fadd (Num S1) (Num X3) = Num S" "lo * (S1 + X3) \<le> S" "S \<le> hi * (S1 + X3)"
      "S = 0 \<or> (1 / 2 ^ 1004 / 2 \<le> S \<and> S \<le> 4 * 2 ^ 1005)"
    unfolding lo_def hi_def by blast
  have Sr: "S = 0 \<or> (1 / 2 ^ 1005 \<le> S \<and> S \<le> 2 ^ 1007)"
    using S(4) by simp
  from sqrt_step [OF Sr] obtain d where
    d: "fsqrt (Num S) = Num d" "lo * sqrt S \<le> d" "d \<le> hi * sqrt S"
    unfolding lo_def hi_def by blast
  have S1': "toDouble (X1 + X2) = Num S1" using S1(1) by simp
  have S': "toDouble (S1 + X3) = Num S" using S(1) by simp
  have "distanceTo (Vector3 (Num a1) (Num a2) (Num a3)) (Vector3 (Num b1) (Num b2) (Num b3))
      = fsqrt (Num S)"
    by (simp add: distanceTo_def Let_def fsub_Num X1(1) X2(1) X3(1) S1' S' del: fsqrt.simps)
  then have dist: "distanceTo (Vector3 (Num a1) (Num a2) (Num a3))
      (Vector3 (Num b1) (Num b2) (Num b3)) = Num d"
    using d(1) by simp
  define E2 where "E2 = p + q + r"
  have E2nn: "0 \<le> E2" using nn by (simp add: E2_def)
  text \<open>lower bound\<close>
  have l1: "lo ^ 4 * (p + q) \<le> S1"
  proof -
    have "lo * (lo ^ 3 * p + lo ^ 3 * q) \<le> lo * (X1 + X2)"
      using X1(2) X2(2) lo by (intro mult_left_mono) simp_all
    then show ?thesis using S1(2) by (simp add: algebra_simps power_numeral_reduce)
  qed
  have l2: "lo ^ 4 * r \<le> X3"
  proof -
    have "lo ^ 4 \<le> lo ^ 3"
      using lo by (intro power_decreasing) simp_all
    then have "lo ^ 4 * r \<le> lo ^ 3 * r"
      using nn by (intro mult_right_mono) simp_all
    then show ?thesis using X3(2) by linarith
  qed
  have l3: "lo ^ 6 * E2 \<le> S"
  proof -
    have "lo * (lo ^ 4 * (p + q) + lo ^ 4 * r) \<le> lo * (S1 + X3)"
      using l1 l2 lo by (intro mult_left_mono) simp_all
    then have "lo ^ 5 * E2 \<le> S"
      using S(2) by (simp add: algebra_simps power_numeral_reduce E2_def)
    moreover have "lo ^ 6 \<le> lo ^ 5"
      using lo by (intro power_decreasing) simp_all
    then have "lo ^ 6 * E2 \<le> lo ^ 5 * E2"
      using E2nn by (intro mult_right_mono) simp_all
    ultimately show ?thesis by linarith
  qed
  have "sqrt (lo ^ 6 * E2) \<le> sqrt S"
    using l3 by simp
  moreover have "sqrt (lo ^ 6 * E2) = lo ^ 3 * sqrt E2"
  proof -
    have "sqrt (lo ^ 6) = lo ^ 3"
      using lo by (intro real_sqrt_unique) (simp_all flip: power_mult)
    then show ?thesis by (simp add: real_sqrt_mult)
  qed
  ultimately have l4: "lo ^ 3 * sqrt E2 \<le> sqrt S" by simp
  have l5: "lo ^ 4 * sqrt E2 \<le> d"
  proof -
    have "lo * (lo ^ 3 * sqrt E2) \<le> lo * sqrt S"
      using l4 lo by (intro mult_left_mono) simp_all
    then show ?thesis using d(2) by (simp add: algebra_simps power_numeral_reduce)
  qed
  text \<open>upper bound\<close>
  have hi0: "0 \<le> hi" using hi by simp
  have u1: "S1 \<le> hi ^ 4 * (p + q)"
  proof -
    have "hi * (X1 + X2) \<le> hi * (hi ^ 3 * p + hi ^ 3 * q)"
      using X1(3) X2(3) hi0 by (intro mult_left_mono) simp_all
    then show ?thesis using S1(3) by (simp add: algebra_simps power_numeral_reduce)
  qed
  have u2: "X3 \<le> hi ^ 4 * r"
  proof -
    have "hi ^ 3 \<le> hi ^ 4"
      using hi by (intro power_increasing) simp_all
    then have "hi ^ 3 * r \<le> hi ^ 4 * r"
      using nn by (intro mult_right_mono) simp_all
    then show ?thesis using X3(3) by linarith
  qed
  have u3: "S \<le> hi ^ 6 * E2"
  proof -
    have "hi * (S1 + X3) \<le> hi * (hi ^ 4 * (p + q) + hi ^ 4 * r)"
      using u1 u2 hi0 by (intro mult_left_mono) simp_all
    then have "S \<le> hi ^ 5 * E2"
      using S(3) by (simp add: algebra_simps power_numeral_reduce E2_def)
    moreover have "hi ^ 5 \<le> hi ^ 6"
      using hi by (intro power_increasing) simp_all
    then have "hi ^ 5 * E2 \<le> hi ^ 6 * E2"
      using E2nn by (intro mult_right_mono) simp_all
    ultimately show ?thesis by linarith
  qed
  have "sqrt S \<le> sqrt (hi ^ 6 * E2)"
    using u3 by simp
  moreover have "sqrt (hi ^ 6 * E2) = hi ^ 3 * sqrt E2"
  proof -
    have "sqrt (hi ^ 6) = hi ^ 3"
      using hi0 by (intro real_sqrt_unique) (simp_all flip: power_mult)
    then show ?thesis by (simp add: real_sqrt_mult)
  qed
  ultimately have u4: "sqrt S \<le> hi ^ 3 * sqrt E2" by simp
  have u5: "d \<le> hi ^ 4 * sqrt E2"
  proof -
    have "hi * sqrt S \<le> hi * (hi ^ 3 * sqrt E2)"
      using u4 hi0 by (intro mult_left_mono) simp_all
    then show ?thesis using d(3) by (simp add: algebra_simps power_numeral_reduce)
  qed
  text \<open>the two factors\<close>
  have n1: "1 - 5 * roundoff \<le> lo ^ 4"
    by (simp add: lo_def roundoff_def field_simps)
  have n2: "hi ^ 4 \<le> 1 + 5 * roundoff"
    by (simp add: hi_def roundoff_def field_simps)
  have Enn: "0 \<le> sqrt E2" using E2nn by simp
  have "(1 - 5 * roundoff) * sqrt E2 \<le> lo ^ 4 * sqrt E2"
    using n1 Enn by (intro mult_right_mono) simp_all
  moreover have "hi ^ 4 * sqrt E2 \<le> (1 + 5 * roundoff) * sqrt E2"
    using n2 Enn by (intro mult_right_mono) simp_all
  ultimately have "\<bar>d - sqrt E2\<bar> \<le> 5 * roundoff * sqrt E2"
    using l5 u5 by (simp add: algebra_simps abs_le_iff)
  then show ?thesis
    using dist unfolding E2_def p_def q_def r_def by blast
qed

lemma roundTiesToEven_nonneg: "0 \<le> t \<Longrightarrow> 0 \<le> roundTiesToEven t"
  unfolding roundTiesToEven_def Let_def by auto

lemma toDouble_sign:
  assumes "0 \<le> x" and "toDouble x = Num y"
  shows "0 \<le> y"
proof (cases "x = 0")
  case True
  then show ?thesis using assms(2) by (simp add: toDouble_def)
next
  case False
  define u :: real where "u = 2 powr (of_int (max \<lfloor>log 2 \<bar>x\<bar>\<rfloor> (- 1022)) - 52)"
  have upos: "0 < u" by (simp add: u_def)
  then have "0 \<le> x / u" using assms(1) by simp
  then have "0 \<le> roundTiesToEven (x / u)" by (rule roundTiesToEven_nonneg)
  then have "0 \<le> of_int (roundTiesToEven (x / u)) * u"
    using upos by simp
  moreover have "y = of_int (roundTiesToEven (x / u)) * u"
    using assms(2) False unfolding toDouble_def Let_def u_def [symmetric]
    by (simp split: if_splits)
  ultimately show ?thesis by simp
qed

text \<open>The doubles that the examples meet.\<close>

lemma toDouble_zero: "toDouble 0 = Num 0"
  by (simp add: toDouble_def)

lemma toDouble_one: "toDouble 1 = Num 1"
  using toDouble_int [of 1] by simp

lemma toDouble_hundred: "toDouble 100 = Num 100"
  using toDouble_int [of 100] by simp

lemma toDouble_minus_three: "toDouble (- 3) = Num (- 3)"
  using toDouble_int [of "- 3"] by simp

lemma toDouble_half: "toDouble (1 / 2) = Num (1 / 2)"
  using toDouble_exact [of 1 "- 1"] by (simp add: powr_minus_divide)

lemma toDouble_minus_three_halves: "toDouble (- (3 / 2)) = Num (- (3 / 2))"
  using toDouble_exact [of "- 3" "- 1"] by (simp add: powr_minus_divide)

lemma toDouble_eval:
  assumes x: "x \<noteq> 0"
    and e: "2 powr of_int e \<le> \<bar>x\<bar>" "\<bar>x\<bar> < 2 powr (of_int e + 1)" "- 1022 \<le> e"
    and n: "roundTiesToEven (x / 2 powr (of_int e - 52)) = n"
    and fin: "\<bar>of_int n * 2 powr (of_int e - 52)\<bar> < (2::real) ^ 1024"
  shows "toDouble x = Num (of_int n * 2 powr (of_int e - 52))"
proof -
  have "0 < \<bar>x\<bar>" using x by simp
  then have "\<lfloor>log 2 \<bar>x\<bar>\<rfloor> = e"
    using e(1,2) floor_log_eq_powr_iff [of "\<bar>x\<bar>" 2 e] by simp
  then have m: "max \<lfloor>log 2 \<bar>x\<bar>\<rfloor> (- 1022) = e"
    using e(3) by simp
  have "\<not> (2::real) ^ 1024 \<le> \<bar>of_int n * 2 powr (of_int e - 52)\<bar>"
    using fin by simp
  then show ?thesis
    using x unfolding toDouble_def Let_def m n by simp
qed

lemma toDouble_twentieth:
  "toDouble (1 / 20) = Num (3602879701896397 / 72057594037927936)"
proof -
  have u: "(2::real) powr (of_int (- 5) - 52) = 1 / 2 ^ 57"
    by (simp add: powr_minus_divide)
  have "\<lfloor>7205759403792793 + 3 / 5 :: real\<rfloor> = 7205759403792793"
    by linarith
  then have "roundTiesToEven (7205759403792793 + 3 / 5) = 7205759403792794"
    by (simp add: roundTiesToEven_def Let_def)
  moreover have "(1 / 20 :: real) / (1 / 2 ^ 57) = 7205759403792793 + 3 / 5"
    by simp
  ultimately have n: "roundTiesToEven ((1 / 20) / 2 powr (of_int (- 5) - 52)) = 7205759403792794"
    unfolding u by simp
  have "toDouble (1 / 20) = Num (of_int 7205759403792794 * 2 powr (of_int (- 5) - 52))"
  proof (rule toDouble_eval [OF _ _ _ _ n])
    show "(1 / 20 :: real) \<noteq> 0" by simp
    show "2 powr of_int (- 5) \<le> \<bar>1 / 20 :: real\<bar>" by (simp add: powr_minus_divide)
    show "\<bar>1 / 20 :: real\<bar> < 2 powr (of_int (- 5) + 1)" by (simp add: powr_minus_divide)
    show "- 1022 \<le> (- 5 :: int)" by simp
    show "\<bar>of_int 7205759403792794 * 2 powr (of_int (- 5) - 52)\<bar> < (2::real) ^ 1024"
      unfolding u by simp
  qed
  then show ?thesis unfolding u by simp
qed

lemma toDouble_twentieth_again:
  "toDouble (3602879701896397 / 72057594037927936) = Num (3602879701896397 / 72057594037927936)"
  using toDouble_exact [of 3602879701896397 "- 56"] by (simp add: powr_minus_divide)

section \<open>The distance and its label\<close>

lemma digits_below_ten: "n < 10 \<Longrightarrow> digits n = [digitChar n]"
  by (simp add: digits.simps [of n])

lemma digits_from_ten: "10 \<le> n \<Longrightarrow> digits n = digits (n div 10) @ [digitChar (n mod 10)]"
  by (simp add: digits.simps [of n])

lemma length_digits_one: "length (digits n) \<le> Suc 0 \<longleftrightarrow> n < 10"
proof (cases "n < 10")
  case True
  then show ?thesis by (simp add: digits_below_ten)
next
  case False
  then have "digits (n div 10) \<noteq> []"
    by (subst digits.simps) simp
  then have "0 < length (digits (n div 10))" by simp
  with False show ?thesis by (simp add: digits_from_ten)
qed

text \<open>
  With one fractional digit, for a finite value from 0 to below \<open>10^21\<close>, \<open>toFixed\<close> prints
  the tenths nearest to it: the digits of the whole part, the point, one digit.
\<close>

lemma toFixed_one_decimal:
  assumes "0 \<le> x" "x < 10 ^ 21"
  shows "toFixed nts (Suc 0) (Num x) =
           digits (nat \<lfloor>x * 10 + 1 / 2\<rfloor> div 10) @ ''.'' @
           [digitChar (nat \<lfloor>x * 10 + 1 / 2\<rfloor> mod 10)]"
proof (cases "nat \<lfloor>x * 10 + 1 / 2\<rfloor> < 10")
  case True
  then show ?thesis using assms
    by (simp add: toFixed_def Let_def length_digits_one digits_below_ten digitChar_def)
next
  case False
  then show ?thesis using assms
    by (simp add: toFixed_def Let_def length_digits_one digits_from_ten)
qed

lemma nearest_tenth:
  assumes "0 \<le> (x::real)"
  shows "\<bar>real (nat \<lfloor>x * 10 + 1 / 2\<rfloor>) / 10 - x\<bar> \<le> 1 / 20"
proof -
  have "0 \<le> \<lfloor>x * 10 + 1 / 2\<rfloor>" using assms by simp
  then have r: "real (nat \<lfloor>x * 10 + 1 / 2\<rfloor>) = of_int \<lfloor>x * 10 + 1 / 2\<rfloor>" by simp
  have "of_int \<lfloor>x * 10 + 1 / 2\<rfloor> \<le> x * 10 + 1 / 2"
    and "x * 10 + 1 / 2 < of_int \<lfloor>x * 10 + 1 / 2\<rfloor> + 1"
    by linarith+
  then show ?thesis unfolding r by linarith
qed

lemma toFixed_hundred: "toFixed nts (Suc 0) (Num 100) = ''100.0''"
  by (simp add: toFixed_one_decimal digits_from_ten digits_below_ten digitChar_def)

text \<open>A distance that is a number is not negative, and neither is 100 times it.\<close>

lemma distanceTo_sign:
  assumes "distanceTo p1 p2 = Num d"
  shows "0 \<le> d"
proof -
  define z where "z = fadd (fadd (fmul (fsub (vx p1) (vx p2)) (fsub (vx p1) (vx p2)))
      (fmul (fsub (vy p1) (vy p2)) (fsub (vy p1) (vy p2))))
      (fmul (fsub (vz p1) (vz p2)) (fsub (vz p1) (vz p2)))"
  have "fsqrt z = Num d"
    using assms by (simp add: distanceTo_def Let_def z_def)
  then show ?thesis
    by (cases z) (auto split: if_splits dest: toDouble_sign [rotated])
qed

lemma centimetres_sign:
  assumes "fmul (distanceTo p1 p2) (toDouble 100) = Num v"
  shows "0 \<le> v"
proof (cases "distanceTo p1 p2")
  case (Num d)
  then have "0 \<le> d * 100" using distanceTo_sign [of p1 p2 d] by simp
  moreover have "toDouble (d * 100) = Num v"
    using assms Num by (simp add: toDouble_hundred)
  ultimately show ?thesis by (rule toDouble_sign)
next
  case PosInfinity
  then show ?thesis using assms by (simp add: toDouble_hundred)
next
  case NegInfinity
  then show ?thesis using assms by (simp add: toDouble_hundred)
next
  case NaN
  then show ?thesis using assms by simp
qed

text \<open>
  C5. The claim puts the label at the midpoint of the two points. The code lifts it: the
  sprite is copied to the midpoint and then \<open>y += 0.05\<close>. As amended, in double
  arithmetic: the distance of a created segment is
  \<open>Math.sqrt(dx * dx + dy * dy + dz * dz)\<close>; for finite points whose coordinate
  differences are zero or of magnitude between \<open>2^-500\<close> and \<open>2^500\<close> it is a number
  within the relative error \<open>5 * 2^-53\<close> of the Euclidean distance. The label's text is
  \<open>toFixed(1)\<close> of the product of the distance and 100, followed by " cm"; when that
  product is a number below \<open>10^21\<close> these are the tenths nearest to it (the greater on a
  tie), and it is "100.0 cm" for the distance 1. The label stands at the midpoint
  \<open>(p1 + p2) * 0.5\<close> with 0.05 added to its y.
\<close>

theorem createLineSegment_label:
  "(let d = fst (createLineSegment nts p1 p2 s);
        mid = multiplyScalar (addVectors p1 p2) (toDouble 0.5);
        n = nat \<lfloor>v * 10 + 1 / 2\<rfloor>
    in d = fsqrt (fadd (fadd (fmul (fsub (vx p1) (vx p2)) (fsub (vx p1) (vx p2)))
                         (fmul (fsub (vy p1) (vy p2)) (fsub (vy p1) (vy p2))))
                   (fmul (fsub (vz p1) (vz p2)) (fsub (vz p1) (vz p2)))) \<and>
       (p1 = Vector3 (Num a1) (Num a2) (Num a3) \<and> p2 = Vector3 (Num b1) (Num b2) (Num b3) \<and>
        (a1 = b1 \<or> (1 / 2 ^ 500 \<le> \<bar>a1 - b1\<bar> \<and> \<bar>a1 - b1\<bar> \<le> 2 ^ 500)) \<and>
        (a2 = b2 \<or> (1 / 2 ^ 500 \<le> \<bar>a2 - b2\<bar> \<and> \<bar>a2 - b2\<bar> \<le> 2 ^ 500)) \<and>
        (a3 = b3 \<or> (1 / 2 ^ 500 \<le> \<bar>a3 - b3\<bar> \<and> \<bar>a3 - b3\<bar> \<le> 2 ^ 500)) \<longrightarrow>
          isNum d \<and>
          \<bar>numOf d - sqrt ((a1 - b1)\<^sup>2 + (a2 - b2)\<^sup>2 + (a3 - b3)\<^sup>2)\<bar>
            \<le> 5 * roundoff * sqrt ((a1 - b1)\<^sup>2 + (a2 - b2)\<^sup>2 + (a3 - b3)\<^sup>2)) \<and>
       markers (snd (createLineSegment nts p1 p2 s)) =
         markers s @
         [\<lparr>oid = objectId s + 1,
           prim = Sprite (toFixed nts 1 (fmul d (toDouble 100)) @ '' cm'')
                    (Vector3 (vx mid) (fadd (vy mid) (toDouble 0.05)) (vz mid))\<rparr>] \<and>
       (fmul d (toDouble 100) = Num v \<and> v < 10 ^ 21 \<longrightarrow>
          toFixed nts 1 (fmul d (toDouble 100))
            = digits (n div 10) @ ''.'' @ [digitChar (n mod 10)] \<and>
          \<bar>real n / 10 - v\<bar> \<le> 1 / 20) \<and>
       (d = Num 1 \<longrightarrow> toFixed nts 1 (fmul d (toDouble 100)) @ '' cm'' = ''100.0 cm''))"
proof -
  have d: "fst (createLineSegment nts p1 p2 s) = distanceTo p1 p2"
    by (simp add: createLineSegment_def createTextLabel_def Let_def)
  have e: "distanceTo p1 p2 =
      fsqrt (fadd (fadd (fmul (fsub (vx p1) (vx p2)) (fsub (vx p1) (vx p2)))
                     (fmul (fsub (vy p1) (vy p2)) (fsub (vy p1) (vy p2))))
               (fmul (fsub (vz p1) (vz p2)) (fsub (vz p1) (vz p2))))"
    by (simp add: distanceTo_def Let_def)
  have tol: "isNum (distanceTo p1 p2) \<and>
      \<bar>numOf (distanceTo p1 p2) - sqrt ((a1 - b1)\<^sup>2 + (a2 - b2)\<^sup>2 + (a3 - b3)\<^sup>2)\<bar>
        \<le> 5 * roundoff * sqrt ((a1 - b1)\<^sup>2 + (a2 - b2)\<^sup>2 + (a3 - b3)\<^sup>2)"
    if pts: "p1 = Vector3 (Num a1) (Num a2) (Num a3)" "p2 = Vector3 (Num b1) (Num b2) (Num b3)"
      and rng: "a1 = b1 \<or> (1 / 2 ^ 500 \<le> \<bar>a1 - b1\<bar> \<and> \<bar>a1 - b1\<bar> \<le> 2 ^ 500)"
        "a2 = b2 \<or> (1 / 2 ^ 500 \<le> \<bar>a2 - b2\<bar> \<and> \<bar>a2 - b2\<bar> \<le> 2 ^ 500)"
        "a3 = b3 \<or> (1 / 2 ^ 500 \<le> \<bar>a3 - b3\<bar> \<and> \<bar>a3 - b3\<bar> \<le> 2 ^ 500)"
  proof -
    have "a1 - b1 = 0 \<or> (1 / 2 ^ 500 \<le> \<bar>a1 - b1\<bar> \<and> \<bar>a1 - b1\<bar> \<le> 2 ^ 500)"
      "a2 - b2 = 0 \<or> (1 / 2 ^ 500 \<le> \<bar>a2 - b2\<bar> \<and> \<bar>a2 - b2\<bar> \<le> 2 ^ 500)"
      "a3 - b3 = 0 \<or> (1 / 2 ^ 500 \<le> \<bar>a3 - b3\<bar> \<and> \<bar>a3 - b3\<bar> \<le> 2 ^ 500)"
      using rng by auto
    from distanceTo_tolerance [OF this] obtain r where
      "distanceTo p1 p2 = Num r"
      "\<bar>r - sqrt ((a1 - b1)\<^sup>2 + (a2 - b2)\<^sup>2 + (a3 - b3)\<^sup>2)\<bar>
        \<le> 5 * roundoff * sqrt ((a1 - b1)\<^sup>2 + (a2 - b2)\<^sup>2 + (a3 - b3)\<^sup>2)"
      unfolding pts by blast
    then show ?thesis by simp
  qed
  have m: "markers (snd (createLineSegment nts p1 p2 s)) =
         markers s @
         [\<lparr>oid = objectId s + 1,
           prim = Sprite (toFixed nts 1 (fmul (distanceTo p1 p2) (toDouble 100)) @ '' cm'')
                    (Vector3 (vx (multiplyScalar (addVectors p1 p2) (toDouble 0.5)))
                       (fadd (vy (multiplyScalar (addVectors p1 p2) (toDouble 0.5)))
                          (toDouble 0.05))
                       (vz (multiplyScalar (addVectors p1 p2) (toDouble 0.5))))\<rparr>]"
    by (simp add: createLineSegment_def createTextLabel_def Let_def)
  have t: "toFixed nts 1 (fmul (distanceTo p1 p2) (toDouble 100))
        = digits (nat \<lfloor>v * 10 + 1 / 2\<rfloor> div 10) @ ''.'' @
          [digitChar (nat \<lfloor>v * 10 + 1 / 2\<rfloor> mod 10)] \<and>
      \<bar>real (nat \<lfloor>v * 10 + 1 / 2\<rfloor>) / 10 - v\<bar> \<le> 1 / 20"
    if "fmul (distanceTo p1 p2) (toDouble 100) = Num v" "v < 10 ^ 21"
  proof -
    have "0 \<le> v" using that(1) by (rule centimetres_sign)
    then show ?thesis
      using that toFixed_one_decimal [of v nts] nearest_tenth [of v] by simp
  qed
  have h: "toFixed nts 1 (fmul (distanceTo p1 p2) (toDouble 100)) @ '' cm'' = ''100.0 cm''"
    if "distanceTo p1 p2 = Num 1"
    using that by (simp add: toDouble_hundred toFixed_hundred)
  show ?thesis
    unfolding Let_def d
    using e tol m t h by blast
qed

text \<open>
  The points \<open>(0, 0, -1)\<close> and \<open>(0, 0, -2)\<close>: the distance is 1, the label reads
  "100.0 cm" and stands at \<open>(0, c, -1.5)\<close>, with \<open>c\<close> the double of the literal 0.05; the
  midpoint is \<open>(0, 0, -1.5)\<close>.
\<close>

lemma example_segment:
  "createLineSegment noExponent (Vector3 (Num 0) (Num 0) (Num (- 1)))
       (Vector3 (Num 0) (Num 0) (Num (- 2))) (newMeasurementHelper 0 {})
     = (Num 1,
        \<lparr>objectId = 2,
         scene = {\<lparr>oid = 1,
                    prim = Sprite ''100.0 cm''
                      (Vector3 (Num 0) (Num (3602879701896397 / 72057594037927936))
                         (Num (- (3 / 2))))\<rparr>,
                  \<lparr>oid = 0,
                    prim = Line (Vector3 (Num 0) (Num 0) (Num (- 1)))
                             (Vector3 (Num 0) (Num 0) (Num (- 2)))\<rparr>},
         points = [],
         markers = [\<lparr>oid = 1,
                     prim = Sprite ''100.0 cm''
                       (Vector3 (Num 0) (Num (3602879701896397 / 72057594037927936))
                          (Num (- (3 / 2))))\<rparr>],
         lineSegments = [\<lparr>oid = 0,
                          prim = Line (Vector3 (Num 0) (Num 0) (Num (- 1)))
                                   (Vector3 (Num 0) (Num 0) (Num (- 2)))\<rparr>]\<rparr>)"
  by (simp add: createLineSegment_def createTextLabel_def Let_def scene_add_def
      newMeasurementHelper_def distanceTo_def addVectors_def multiplyScalar_def fsub_def
      toDouble_zero toDouble_one toDouble_hundred toDouble_minus_three toDouble_half
      toDouble_minus_three_halves toDouble_twentieth toDouble_twentieth_again toFixed_hundred)

theorem label_not_at_midpoint:
  "prim (last (markers (snd (createLineSegment noExponent (Vector3 (Num 0) (Num 0) (Num (- 1)))
                               (Vector3 (Num 0) (Num 0) (Num (- 2)))
                               (newMeasurementHelper 0 {})))))
     = Sprite ''100.0 cm''
         (Vector3 (Num 0) (Num (3602879701896397 / 72057594037927936)) (Num (- (3 / 2)))) \<and>
   multiplyScalar (addVectors (Vector3 (Num 0) (Num 0) (Num (- 1)))
                     (Vector3 (Num 0) (Num 0) (Num (- 2)))) (toDouble 0.5)
     = Vector3 (Num 0) (Num 0) (Num (- (3 / 2))) \<and>
   \<not> labelAtMidpoint (Vector3 (Num 0) (Num 0) (Num (- 1))) (Vector3 (Num 0) (Num 0) (Num (- 2)))
        (last (markers (snd (createLineSegment noExponent (Vector3 (Num 0) (Num 0) (Num (- 1)))
                               (Vector3 (Num 0) (Num 0) (Num (- 2)))
                               (newMeasurementHelper 0 {})))))"
  by (simp add: example_segment labelAtMidpoint_def addVectors_def multiplyScalar_def
      toDouble_zero toDouble_minus_three toDouble_half toDouble_minus_three_halves)

theorem createLineSegment_label_witness:
  "fst (createLineSegment noExponent (Vector3 (Num 0) (Num 0) (Num (- 1)))
          (Vector3 (Num 0) (Num 0) (Num (- 2))) (newMeasurementHelper 0 {})) = Num 1 \<and>
   \<bar>numOf (fst (createLineSegment noExponent (Vector3 (Num 0) (Num 0) (Num (- 1)))
          (Vector3 (Num 0) (Num 0) (Num (- 2))) (newMeasurementHelper 0 {}))) - 1\<bar>
     \<le> 5 * roundoff \<and>
   fmul (fst (createLineSegment noExponent (Vector3 (Num 0) (Num 0) (Num (- 1)))
          (Vector3 (Num 0) (Num 0) (Num (- 2))) (newMeasurementHelper 0 {}))) (toDouble 100)
     = Num 100 \<and>
   (100::real) < 10 ^ 21 \<and>
   toFixed noExponent 1
       (fmul (fst (createLineSegment noExponent (Vector3 (Num 0) (Num 0) (Num (- 1)))
          (Vector3 (Num 0) (Num 0) (Num (- 2))) (newMeasurementHelper 0 {}))) (toDouble 100))
     = ''100.0'' \<and>
   markers (snd (createLineSegment noExponent (Vector3 (Num 0) (Num 0) (Num (- 1)))
                   (Vector3 (Num 0) (Num 0) (Num (- 2))) (newMeasurementHelper 0 {})))
     = [\<lparr>oid = 1,
         prim = Sprite ''100.0 cm''
                  (Vector3 (Num 0) (Num (3602879701896397 / 72057594037927936))
                     (Num (- (3 / 2))))\<rparr>]"
proof -
  let ?p1 = "Vector3 (Num 0) (Num 0) (Num (- 1))"
  let ?p2 = "Vector3 (Num 0) (Num 0) (Num (- 2))"
  let ?r = "createLineSegment noExponent ?p1 ?p2 (newMeasurementHelper 0 {})"
  note T = createLineSegment_label [where nts = noExponent and ?p1.0 = ?p1 and ?p2.0 = ?p2
      and s = "newMeasurementHelper 0 {}" and ?a1.0 = 0 and ?a2.0 = 0 and ?a3.0 = "- 1"
      and ?b1.0 = 0 and ?b2.0 = 0 and ?b3.0 = "- 2" and v = 100, unfolded Let_def]
  have one: "fst ?r = Num 1"
    by (simp add: example_segment)
  have cm: "fmul (fst ?r) (toDouble 100) = Num 100"
    by (simp add: one toDouble_hundred)
  have rng: "(1::real) / 2 ^ 500 \<le> \<bar>- 1 - - 2\<bar> \<and> \<bar>- 1 - - 2 :: real\<bar> \<le> 2 ^ 500"
    by simp
  have tol: "\<bar>numOf (fst ?r) - sqrt ((0 - 0)\<^sup>2 + (0 - 0)\<^sup>2 + (- 1 - - 2)\<^sup>2)\<bar>
      \<le> 5 * roundoff * sqrt ((0 - 0)\<^sup>2 + (0 - 0)\<^sup>2 + (- 1 - - 2)\<^sup>2)"
    using T rng by blast
  have shown: "toFixed noExponent 1 (fmul (fst ?r) (toDouble 100))
      = digits (nat \<lfloor>100 * 10 + 1 / 2 :: real\<rfloor> div 10) @ ''.'' @
        [digitChar (nat \<lfloor>100 * 10 + 1 / 2 :: real\<rfloor> mod 10)]"
    using T cm by simp
  have fl: "nat \<lfloor>100 * 10 + 1 / 2 :: real\<rfloor> = 1000"
    by simp
  have shown': "toFixed noExponent 1 (fmul (fst ?r) (toDouble 100)) = ''100.0''"
    unfolding shown fl by (simp add: digits_from_ten digits_below_ten digitChar_def)
  have mk: "markers (snd ?r) =
      [\<lparr>oid = 1,
         prim = Sprite ''100.0 cm''
                  (Vector3 (Num 0) (Num (3602879701896397 / 72057594037927936))
                     (Num (- (3 / 2))))\<rparr>]"
    by (simp add: example_segment)
  show ?thesis
    using one tol cm shown' mk by simp
qed

subsection \<open>Two more segments\<close>

lemma roundTiesToEven_near:
  assumes "\<bar>t - of_int n\<bar> < 1 / 2"
  shows "roundTiesToEven t = n"
proof -
  have "\<lfloor>t\<rfloor> = n \<or> \<lfloor>t\<rfloor> = n - 1"
    using assms by linarith
  then show ?thesis
  proof
    assume f: "\<lfloor>t\<rfloor> = n"
    then have "t - of_int \<lfloor>t\<rfloor> < 1 / 2" using assms by linarith
    then show ?thesis using f by (simp add: roundTiesToEven_def Let_def)
  next
    assume f: "\<lfloor>t\<rfloor> = n - 1"
    have "1 / 2 < t - (of_int n - 1)" using assms by linarith
    then have "1 / 2 < t - of_int (n - 1)" by simp
    then have "1 / 2 < t - of_int \<lfloor>t\<rfloor>" unfolding f .
    then show ?thesis using f by (simp add: roundTiesToEven_def Let_def)
  qed
qed

text \<open>
  A tie at the tenths: the literal 1.0025 is the double \<open>2257429313219461 / 2^51\<close>, just
  below 1.0025; 100 times it rounds to the double 100.25, and \<open>toFixed(1)\<close> takes the
  greater of the two nearest tenths.
\<close>

lemma toDouble_literal: "toDouble (- 1.0025) = Num (- (2257429313219461 / 2251799813685248))"
proof -
  have u: "(2::real) powr (of_int 0 - 52) = 1 / 2 ^ 52"
    by (simp add: powr_minus_divide)
  have "\<bar>(- 1.0025) / (1 / 2 ^ 52) - of_int (- 4514858626438922)\<bar> < (1 / 2 :: real)"
    by simp
  then have n: "roundTiesToEven ((- 1.0025) / 2 powr (of_int 0 - 52)) = - 4514858626438922"
    unfolding u by (rule roundTiesToEven_near)
  have "toDouble (- 1.0025) = Num (of_int (- 4514858626438922) * 2 powr (of_int 0 - 52))"
  proof (rule toDouble_eval [OF _ _ _ _ n])
    show "(- 1.0025 :: real) \<noteq> 0" by simp
    show "2 powr of_int 0 \<le> \<bar>- 1.0025 :: real\<bar>" by simp
    show "\<bar>- 1.0025 :: real\<bar> < 2 powr (of_int 0 + 1)" by simp
    show "- 1022 \<le> (0 :: int)" by simp
    show "\<bar>of_int (- 4514858626438922) * 2 powr (of_int 0 - 52)\<bar> < (2::real) ^ 1024"
      unfolding u by simp
  qed
  then show ?thesis unfolding u by simp
qed

lemma toDouble_literal_value:
  "toDouble (2257429313219461 / 2251799813685248) = Num (2257429313219461 / 2251799813685248)"
  using toDouble_exact [of 2257429313219461 "- 51"] by (simp add: powr_minus_divide)

lemma toDouble_literal_negative:
  "toDouble (- (2257429313219461 / 2251799813685248))
     = Num (- (2257429313219461 / 2251799813685248))"
  using toDouble_exact [of "- 2257429313219461" "- 51"] by (simp add: powr_minus_divide)

lemma toDouble_literal_half:
  "toDouble (- (2257429313219461 / 4503599627370496)) = Num (- (2257429313219461 / 4503599627370496))"
  using toDouble_exact [of "- 2257429313219461" "- 52"] by (simp add: powr_minus_divide)

lemma toDouble_literal_square:
  "toDouble (2257429313219461 / 2251799813685248 * (2257429313219461 / 2251799813685248))
     = Num (4526145773005019 / 4503599627370496)"
proof -
  have u: "(2::real) powr (of_int 0 - 52) = 1 / 2 ^ 52"
    by (simp add: powr_minus_divide)
  have "\<bar>(2257429313219461 / 2251799813685248 * (2257429313219461 / 2251799813685248))
        / (1 / 2 ^ 52) - of_int 4526145773005019\<bar> < (1 / 2 :: real)"
    by simp
  then have n: "roundTiesToEven
      ((2257429313219461 / 2251799813685248 * (2257429313219461 / 2251799813685248))
        / 2 powr (of_int 0 - 52)) = 4526145773005019"
    unfolding u by (rule roundTiesToEven_near)
  have "toDouble (2257429313219461 / 2251799813685248 * (2257429313219461 / 2251799813685248))
      = Num (of_int 4526145773005019 * 2 powr (of_int 0 - 52))"
  proof (rule toDouble_eval [OF _ _ _ _ n])
    show "(2257429313219461 / 2251799813685248 * (2257429313219461 / 2251799813685248) :: real) \<noteq> 0"
      by simp
    show "2 powr of_int 0
        \<le> \<bar>2257429313219461 / 2251799813685248 * (2257429313219461 / 2251799813685248) :: real\<bar>"
      by simp
    show "\<bar>2257429313219461 / 2251799813685248 * (2257429313219461 / 2251799813685248) :: real\<bar>
        < 2 powr (of_int 0 + 1)"
      by simp
    show "- 1022 \<le> (0 :: int)" by simp
    show "\<bar>of_int 4526145773005019 * 2 powr (of_int 0 - 52)\<bar> < (2::real) ^ 1024"
      unfolding u by simp
  qed
  then show ?thesis unfolding u by simp
qed

lemma toDouble_square_value:
  "toDouble (4526145773005019 / 4503599627370496) = Num (4526145773005019 / 4503599627370496)"
  using toDouble_exact [of 4526145773005019 "- 52"] by (simp add: powr_minus_divide)

lemma toDouble_literal_root:
  "toDouble (sqrt (4526145773005019 / 4503599627370496))
     = Num (2257429313219461 / 2251799813685248)"
proof -
  define r :: real where "r = sqrt (4526145773005019 / 4503599627370496)"
  have u: "(2::real) powr (of_int 0 - 52) = 1 / 2 ^ 52"
    by (simp add: powr_minus_divide)
  have lo: "4514858626438922 / 4503599627370496 - 1 / 2 ^ 53 < r"
    unfolding r_def by (rule real_less_rsqrt) (simp add: power2_eq_square)
  have hi: "r < 4514858626438922 / 4503599627370496 + 1 / 2 ^ 53"
    unfolding r_def by (rule real_less_lsqrt) (simp_all add: power2_eq_square)
  have "4514858626438922 - 1 / 2 < r * 4503599627370496"
    using lo by (simp add: field_simps)
  moreover have "r * 4503599627370496 < 4514858626438922 + 1 / 2"
    using hi by (simp add: field_simps)
  ultimately have "\<bar>r * 4503599627370496 - 4514858626438922\<bar> < 1 / 2"
    by linarith
  then have "\<bar>r / (1 / 2 ^ 52) - of_int 4514858626438922\<bar> < 1 / 2"
    by simp
  then have n: "roundTiesToEven (r / 2 powr (of_int 0 - 52)) = 4514858626438922"
    unfolding u by (rule roundTiesToEven_near)
  have "toDouble r = Num (of_int 4514858626438922 * 2 powr (of_int 0 - 52))"
  proof (rule toDouble_eval [OF _ _ _ _ n])
    show "r \<noteq> 0" using lo by simp
    show "2 powr of_int 0 \<le> \<bar>r\<bar>" using lo by simp
    show "\<bar>r\<bar> < 2 powr (of_int 0 + 1)" using lo hi by simp
    show "- 1022 \<le> (0 :: int)" by simp
    show "\<bar>of_int 4514858626438922 * 2 powr (of_int 0 - 52)\<bar> < (2::real) ^ 1024"
      unfolding u by simp
  qed
  then show ?thesis unfolding u r_def by simp
qed

lemma toDouble_literal_centimetres:
  "toDouble (2257429313219461 / 2251799813685248 * 100) = Num (401 / 4)"
proof -
  have u: "(2::real) powr (of_int 6 - 52) = 1 / 2 ^ 46"
    by (simp add: powr_minus_divide)
  have "\<bar>(2257429313219461 / 2251799813685248 * 100) / (1 / 2 ^ 46)
        - of_int 7054466603810816\<bar> < (1 / 2 :: real)"
    by simp
  then have n: "roundTiesToEven
      ((2257429313219461 / 2251799813685248 * 100) / 2 powr (of_int 6 - 52)) = 7054466603810816"
    unfolding u by (rule roundTiesToEven_near)
  have "toDouble (2257429313219461 / 2251799813685248 * 100)
      = Num (of_int 7054466603810816 * 2 powr (of_int 6 - 52))"
  proof (rule toDouble_eval [OF _ _ _ _ n])
    show "(2257429313219461 / 2251799813685248 * 100 :: real) \<noteq> 0" by simp
    show "2 powr of_int 6 \<le> \<bar>2257429313219461 / 2251799813685248 * 100 :: real\<bar>" by simp
    show "\<bar>2257429313219461 / 2251799813685248 * 100 :: real\<bar> < 2 powr (of_int 6 + 1)" by simp
    show "- 1022 \<le> (6 :: int)" by simp
    show "\<bar>of_int 7054466603810816 * 2 powr (of_int 6 - 52)\<bar> < (2::real) ^ 1024"
      unfolding u by simp
  qed
  then show ?thesis unfolding u by simp
qed

lemma toFixed_tie: "toFixed nts (Suc 0) (Num (401 / 4)) = ''100.3''"
proof -
  have "nat \<lfloor>401 / 4 * 10 + 1 / 2 :: real\<rfloor> = 1003" by simp
  then show ?thesis
    by (simp add: toFixed_one_decimal digits_from_ten digits_below_ten digitChar_def)
qed

lemma tie_prints_greater_tenth:
  "prim (last (markers (snd (createLineSegment nts (Vector3 (Num 0) (Num 0) (Num 0))
                               (Vector3 (Num 0) (Num 0) (toDouble (- 1.0025))) s))))
     = Sprite ''100.3 cm''
         (Vector3 (Num 0) (Num (3602879701896397 / 72057594037927936))
            (Num (- (2257429313219461 / 4503599627370496))))"
  by (simp add: createLineSegment_def createTextLabel_def Let_def distanceTo_def addVectors_def
      multiplyScalar_def fsub_def toDouble_zero toDouble_hundred toDouble_half
      toDouble_twentieth toDouble_twentieth_again toDouble_literal [simplified]
      toDouble_literal_value
      toDouble_literal_negative toDouble_literal_half toDouble_literal_square [simplified]
      toDouble_square_value toDouble_literal_root
      toDouble_literal_centimetres [simplified] toFixed_tie)


text \<open>Beyond the largest double the rounding gives infinity, and the distance with it.\<close>

lemma toDouble_overflow:
  assumes "2 ^ 1024 \<le> x"
  shows "toDouble x = PosInfinity"
proof -
  define e where "e = \<lfloor>log 2 \<bar>x\<bar>\<rfloor>"
  define u :: real where "u = 2 powr (of_int e - 52)"
  have xpos: "0 < x"
    using assms by (smt (verit) zero_less_power)
  then have x0: "x \<noteq> 0" by simp
  have e1: "2 powr of_int e \<le> x" and e2: "x < 2 powr (of_int e + 1)"
    using exponent_bounds [OF x0] xpos by (simp_all add: e_def)
  have p: "(2::real) powr 1024 = 2 ^ 1024"
    by simp
  have lt: "(2::real) powr 1024 < 2 powr (of_int e + 1)"
    unfolding p using assms e2 by linarith
  have "1024 < of_int e + (1::real)"
    by (rule powr_less_cancel [OF lt]) simp
  then have big: "1024 \<le> e" by linarith
  then have m: "max e (- 1022) = e" by simp
  have upos: "0 < u" by (simp add: u_def)
  have "2 powr of_int e = 2 ^ 52 * u"
    by (simp add: u_def powr_diff)
  then have "2 ^ 52 \<le> x / u"
    using e1 upos by (simp add: pos_le_divide_eq)
  then have "(2::int) ^ 52 \<le> \<lfloor>x / u\<rfloor>"
    by (simp add: le_floor_iff)
  moreover have "\<lfloor>x / u\<rfloor> \<le> roundTiesToEven (x / u)"
    by (simp add: roundTiesToEven_def Let_def)
  ultimately have "(2::int) ^ 52 \<le> roundTiesToEven (x / u)" by linarith
  then have "(2::real) ^ 52 \<le> of_int (roundTiesToEven (x / u))"
    by (metis of_int_le_iff of_int_numeral of_int_power)
  then have "2 ^ 52 * u \<le> of_int (roundTiesToEven (x / u)) * u"
    using upos by (simp add: mult_right_mono)
  moreover have "(2::real) ^ 1024 \<le> 2 ^ 52 * u"
  proof -
    have "(2::real) powr 1024 \<le> 2 powr of_int e"
      by (rule powr_mono) (use big in simp_all)
    then show ?thesis unfolding p \<open>2 powr of_int e = 2 ^ 52 * u\<close> .
  qed
  ultimately have "2 ^ 1024 \<le> \<bar>of_int (roundTiesToEven (x / u)) * u\<bar>"
    by linarith
  then show ?thesis
    using x0 xpos unfolding toDouble_def Let_def
    using e_def m u_def by (simp add: abs_if)
qed

lemma distance_overflows:
  "distanceTo (Vector3 (Num 0) (Num 0) (Num 0)) (Vector3 (Num (2 ^ 600)) (Num 0) (Num 0))
     = PosInfinity"
proof -
  have a: "toDouble (- (2 ^ 600)) = Num (- (2 ^ 600))"
    using toDouble_exact [of "- 1" 600] by (simp add: powr_realpow [of 2 600, simplified])
  have b: "toDouble (2 ^ 600 * 2 ^ 600) = PosInfinity"
    by (rule toDouble_overflow) simp
  show ?thesis
    by (simp add: distanceTo_def Let_def fsub_def toDouble_zero a [simplified] b [simplified])
qed

subsection \<open>The readout\<close>

text \<open>
  \<open>onSelect\<close> shows \<open>toFixed(2)\<close> of the same double product. With the first point at the
  origin and the hit at \<open>(0, 0, -1.00125)\<close> the product is the double 100.125, a tie at the
  hundredths, and the readout is "100.13".
\<close>

lemma toDouble_second_literal:
  "toDouble (- 1.00125) = Num (- (4509229126904709 / 4503599627370496))"
proof -
  have u: "(2::real) powr (of_int 0 - 52) = 1 / 2 ^ 52"
    by (simp add: powr_minus_divide)
  have "\<bar>(- 1.00125) / (1 / 2 ^ 52) - of_int (- 4509229126904709)\<bar> < (1 / 2 :: real)"
    by simp
  then have n: "roundTiesToEven ((- 1.00125) / 2 powr (of_int 0 - 52)) = - 4509229126904709"
    unfolding u by (rule roundTiesToEven_near)
  have "toDouble (- 1.00125) = Num (of_int (- 4509229126904709) * 2 powr (of_int 0 - 52))"
  proof (rule toDouble_eval [OF _ _ _ _ n])
    show "(- 1.00125 :: real) \<noteq> 0" by simp
    show "2 powr of_int 0 \<le> \<bar>- 1.00125 :: real\<bar>" by simp
    show "\<bar>- 1.00125 :: real\<bar> < 2 powr (of_int 0 + 1)" by simp
    show "- 1022 \<le> (0 :: int)" by simp
    show "\<bar>of_int (- 4509229126904709) * 2 powr (of_int 0 - 52)\<bar> < (2::real) ^ 1024"
      unfolding u by simp
  qed
  then show ?thesis unfolding u by simp
qed

lemma toDouble_second_value:
  "toDouble (4509229126904709 / 4503599627370496) = Num (4509229126904709 / 4503599627370496)"
  using toDouble_exact [of 4509229126904709 "- 52"] by (simp add: powr_minus_divide)

lemma toDouble_second_square:
  "toDouble (4509229126904709 / 4503599627370496 * (4509229126904709 / 4503599627370496))
     = Num (1128716415828335 / 1125899906842624)"
proof -
  have u: "(2::real) powr (of_int 0 - 52) = 1 / 2 ^ 52"
    by (simp add: powr_minus_divide)
  have "\<bar>(4509229126904709 / 4503599627370496 * (4509229126904709 / 4503599627370496))
        / (1 / 2 ^ 52) - of_int 4514865663313340\<bar> < (1 / 2 :: real)"
    by simp
  then have n: "roundTiesToEven
      ((4509229126904709 / 4503599627370496 * (4509229126904709 / 4503599627370496))
        / 2 powr (of_int 0 - 52)) = 4514865663313340"
    unfolding u by (rule roundTiesToEven_near)
  have "toDouble (4509229126904709 / 4503599627370496 * (4509229126904709 / 4503599627370496))
      = Num (of_int 4514865663313340 * 2 powr (of_int 0 - 52))"
  proof (rule toDouble_eval [OF _ _ _ _ n])
    show "(4509229126904709 / 4503599627370496 * (4509229126904709 / 4503599627370496) :: real) \<noteq> 0"
      by simp
    show "2 powr of_int 0
        \<le> \<bar>4509229126904709 / 4503599627370496 * (4509229126904709 / 4503599627370496) :: real\<bar>"
      by simp
    show "\<bar>4509229126904709 / 4503599627370496 * (4509229126904709 / 4503599627370496) :: real\<bar>
        < 2 powr (of_int 0 + 1)"
      by simp
    show "- 1022 \<le> (0 :: int)" by simp
    show "\<bar>of_int 4514865663313340 * 2 powr (of_int 0 - 52)\<bar> < (2::real) ^ 1024"
      unfolding u by simp
  qed
  then show ?thesis unfolding u by simp
qed

lemma toDouble_second_square_value:
  "toDouble (1128716415828335 / 1125899906842624) = Num (1128716415828335 / 1125899906842624)"
  using toDouble_exact [of 1128716415828335 "- 50"] by (simp add: powr_minus_divide)

lemma toDouble_second_root:
  "toDouble (sqrt (1128716415828335 / 1125899906842624))
     = Num (4509229126904709 / 4503599627370496)"
proof -
  define r :: real where "r = sqrt (1128716415828335 / 1125899906842624)"
  have u: "(2::real) powr (of_int 0 - 52) = 1 / 2 ^ 52"
    by (simp add: powr_minus_divide)
  have lo: "4509229126904709 / 4503599627370496 - 1 / 2 ^ 53 < r"
    unfolding r_def by (rule real_less_rsqrt) (simp add: power2_eq_square)
  have hi: "r < 4509229126904709 / 4503599627370496 + 1 / 2 ^ 53"
    unfolding r_def by (rule real_less_lsqrt) (simp_all add: power2_eq_square)
  have "4509229126904709 - 1 / 2 < r * 4503599627370496"
    using lo by (simp add: field_simps)
  moreover have "r * 4503599627370496 < 4509229126904709 + 1 / 2"
    using hi by (simp add: field_simps)
  ultimately have "\<bar>r * 4503599627370496 - 4509229126904709\<bar> < 1 / 2"
    by linarith
  then have "\<bar>r / (1 / 2 ^ 52) - of_int 4509229126904709\<bar> < 1 / 2"
    by simp
  then have n: "roundTiesToEven (r / 2 powr (of_int 0 - 52)) = 4509229126904709"
    unfolding u by (rule roundTiesToEven_near)
  have "toDouble r = Num (of_int 4509229126904709 * 2 powr (of_int 0 - 52))"
  proof (rule toDouble_eval [OF _ _ _ _ n])
    show "r \<noteq> 0" using lo by simp
    show "2 powr of_int 0 \<le> \<bar>r\<bar>" using lo by simp
    show "\<bar>r\<bar> < 2 powr (of_int 0 + 1)" using lo hi by simp
    show "- 1022 \<le> (0 :: int)" by simp
    show "\<bar>of_int 4509229126904709 * 2 powr (of_int 0 - 52)\<bar> < (2::real) ^ 1024"
      unfolding u by simp
  qed
  then show ?thesis unfolding u r_def by simp
qed

lemma toDouble_second_centimetres:
  "toDouble (4509229126904709 / 4503599627370496 * 100) = Num (801 / 8)"
proof -
  have u: "(2::real) powr (of_int 6 - 52) = 1 / 2 ^ 46"
    by (simp add: powr_minus_divide)
  have "\<bar>(4509229126904709 / 4503599627370496 * 100) / (1 / 2 ^ 46)
        - of_int 7045670510788608\<bar> < (1 / 2 :: real)"
    by simp
  then have n: "roundTiesToEven
      ((4509229126904709 / 4503599627370496 * 100) / 2 powr (of_int 6 - 52)) = 7045670510788608"
    unfolding u by (rule roundTiesToEven_near)
  have "toDouble (4509229126904709 / 4503599627370496 * 100)
      = Num (of_int 7045670510788608 * 2 powr (of_int 6 - 52))"
  proof (rule toDouble_eval [OF _ _ _ _ n])
    show "(4509229126904709 / 4503599627370496 * 100 :: real) \<noteq> 0" by simp
    show "2 powr of_int 6 \<le> \<bar>4509229126904709 / 4503599627370496 * 100 :: real\<bar>" by simp
    show "\<bar>4509229126904709 / 4503599627370496 * 100 :: real\<bar> < 2 powr (of_int 6 + 1)" by simp
    show "- 1022 \<le> (6 :: int)" by simp
    show "\<bar>of_int 7045670510788608 * 2 powr (of_int 6 - 52)\<bar> < (2::real) ^ 1024"
      unfolding u by simp
  qed
  then show ?thesis unfolding u by simp
qed

lemma toFixed_two_tie: "toFixed nts 2 (Num (801 / 8)) = ''100.13''"
proof -
  have n: "nat \<lfloor>801 / 8 * 10 ^ 2 + 1 / 2 :: real\<rfloor> = 10013" by simp
  have d: "digits 10013 = ''10013''"
    by (simp add: digits_from_ten digits_below_ten digitChar_def)
  show ?thesis
    unfolding toFixed_def Let_def by (simp add: n d)
qed

lemma readout_tie:
  "distanceValue
     (onSelect nts
        (measuringApp
           \<lparr>hitTestManager :=
              (hitTestManager measuringApp)
                \<lparr>hitResults := [\<lparr>position = Vector3 (Num 0) (Num 0) (toDouble (- 1.00125)),
                                 rotation = 0, matrix = 0\<rparr>]\<rparr>,
            measurementHelper :=
              snd (addPoint nts (Vector3 (Num 0) (Num 0) (Num 0)) (newMeasurementHelper 0 {}))\<rparr>))
     = ''100.13''"
  by (simp add: onSelect_def measuringApp_def addPoint_first addPoint_next newMeasurementHelper_def
      Let_def distanceTo_def fsub_def toDouble_zero toDouble_hundred
      toDouble_second_literal [simplified] toDouble_second_value
      toDouble_second_square [simplified] toDouble_second_square_value toDouble_second_root
      toDouble_second_centimetres [simplified] toFixed_two_tie)

section \<open>Polling the hit test\<close>

text \<open>
  C7. \<open>getHitTestResults\<close> returns no result, and returns rather than throws, when no
  source has been acquired (the frame is not even asked), when the frame yields no
  intersection, and when the pose of the first intersection does not resolve (null). When
  a source is there, the frame yields at least one intersection and the pose of the first
  resolves, it returns exactly one hit result, decomposed from that pose's matrix. In all
  four cases \<open>hitResults\<close> holds what was returned.
\<close>

theorem getHitTestResults_cases:
  "(hitTestSource m = None \<longrightarrow>
      getHitTestResults pos rot frame rs m = (Inr [], m\<lparr>hitResults := []\<rparr>)) \<and>
   (hitTestSource m = Some src \<and> xrGetHitTestResults frame src = Inr [] \<longrightarrow>
      getHitTestResults pos rot frame rs m = (Inr [], m\<lparr>hitResults := []\<rparr>)) \<and>
   (hitTestSource m = Some src \<and> xrGetHitTestResults frame src = Inr (h # hs) \<and>
    getPose h rs = Inr None \<longrightarrow>
      getHitTestResults pos rot frame rs m = (Inr [], m\<lparr>hitResults := []\<rparr>)) \<and>
   (hitTestSource m = Some src \<and> xrGetHitTestResults frame src = Inr (h # hs) \<and>
    getPose h rs = Inr (Some mat) \<longrightarrow>
      getHitTestResults pos rot frame rs m =
        (Inr [\<lparr>position = pos mat, rotation = rot mat, matrix = mat\<rparr>],
         m\<lparr>hitMatrix := mat,
           hitResults := [\<lparr>position = pos mat, rotation = rot mat, matrix = mat\<rparr>]\<rparr>))"
  by (simp add: getHitTestResults_def Let_def)

theorem getHitTestResults_cases_witness:
  "getHitTestResults matrixPosition matrixRotation throwingFrame 0 (newHitTestManager 0)
     = (Inr [], newHitTestManager 0) \<and>
   getHitTestResults matrixPosition matrixRotation (frameWith []) 0 acquiredManager
     = (Inr [], acquiredManager) \<and>
   getHitTestResults matrixPosition matrixRotation (frameWith [hitWith None, hitWith (Some 6)]) 0
       acquiredManager
     = (Inr [], acquiredManager) \<and>
   fst (getHitTestResults matrixPosition matrixRotation
          (frameWith [hitWith (Some 5), hitWith (Some 6)]) 0 acquiredManager)
     = Inr [\<lparr>position = Vector3 (Num 0) (Num 0) (Num (- 5)), rotation = 5, matrix = 5\<rparr>]"
proof -
  have none: "hitTestSource (newHitTestManager 0 :: (nat, nat, nat) hitTestManager) = None"
    by (simp add: newHitTestManager_def)
  have some: "hitTestSource acquiredManager = Some 7"
    by (simp add: acquiredManager_def)
  have empty: "xrGetHitTestResults (frameWith []) 7 = Inr []"
    by (simp add: frameWith_def)
  have unresolved:
    "xrGetHitTestResults (frameWith [hitWith None, hitWith (Some 6)]) 7
       = Inr (hitWith None # [hitWith (Some 6)]) \<and>
     getPose (hitWith None) 0 = Inr None"
    by (simp add: frameWith_def hitWith_def)
  have resolved:
    "xrGetHitTestResults (frameWith [hitWith (Some 5), hitWith (Some 6)]) 7
       = Inr (hitWith (Some 5) # [hitWith (Some 6)]) \<and>
     getPose (hitWith (Some 5)) 0 = Inr (Some 5)"
    by (simp add: frameWith_def hitWith_def)
  show ?thesis
    using none some empty unresolved resolved
      getHitTestResults_cases [where m = "newHitTestManager 0" and pos = matrixPosition
        and rot = matrixRotation and frame = throwingFrame and rs = 0]
      getHitTestResults_cases [where m = acquiredManager and src = 7 and frame = "frameWith []"
        and pos = matrixPosition and rot = matrixRotation and rs = 0]
      getHitTestResults_cases [where m = acquiredManager and src = 7
        and frame = "frameWith [hitWith None, hitWith (Some 6)]" and h = "hitWith None"
        and hs = "[hitWith (Some 6)]" and rs = 0 and pos = matrixPosition
        and rot = matrixRotation]
      getHitTestResults_cases [where m = acquiredManager and src = 7
        and frame = "frameWith [hitWith (Some 5), hitWith (Some 6)]"
        and h = "hitWith (Some 5)" and hs = "[hitWith (Some 6)]" and rs = 0
        and pos = matrixPosition and rot = matrixRotation and mat = 5]
    by (simp add: newHitTestManager_def acquiredManager_def matrixPosition_def
        matrixRotation_def)
qed

section \<open>Requesting the hit-test source\<close>

lemma requestHitTestSource_requested:
  "hitTestSourceRequested m \<Longrightarrow> requestHitTestSource session m tr = (Inr (), m, tr)"
  by (simp add: requestHitTestSource_def)

lemma requestHitTestSource_success:
  assumes "\<not> hitTestSourceRequested m"
    and "hitTestSourceRequested (fst (snd (requestHitTestSource session m tr)))"
  shows "acquisitions (snd (snd (requestHitTestSource session m tr))) = acquisitions tr + 1"
  using assms
  by (auto simp add: requestHitTestSource_def acquisitions_def split: if_splits sum.splits)

text \<open>
  C8. On a manager whose request has succeeded (\<open>hitTestSourceRequested\<close> is true) a
  further \<open>requestHitTestSource\<close> returns at once: the promise resolves, the manager is
  unchanged and nothing is asked of the session or written to the console. So when a first
  call on a manager without a source has completed with success, a second completed call,
  with whatever session, leaves manager and trace as they are, and the two calls together
  have issued exactly one acquisition of a source.
\<close>

theorem requestHitTestSource_idempotent:
  "(hitTestSourceRequested m \<longrightarrow> requestHitTestSource session m tr = (Inr (), m, tr)) \<and>
   (\<not> hitTestSourceRequested m \<and>
    hitTestSourceRequested (fst (snd (requestHitTestSource session m tr))) \<longrightarrow>
      requestHitTestSource session'
          (fst (snd (requestHitTestSource session m tr)))
          (snd (snd (requestHitTestSource session m tr)))
        = (Inr (), fst (snd (requestHitTestSource session m tr)),
           snd (snd (requestHitTestSource session m tr))) \<and>
      acquisitions
          (snd (snd (requestHitTestSource session'
             (fst (snd (requestHitTestSource session m tr)))
             (snd (snd (requestHitTestSource session m tr))))))
        = acquisitions tr + 1)"
  by (simp add: requestHitTestSource_requested requestHitTestSource_success)

theorem requestHitTestSource_idempotent_witness:
  "hitTestSourceRequested acquiredManager \<and>
   requestHitTestSource goodSession acquiredManager [] = (Inr (), acquiredManager, []) \<and>
   \<not> hitTestSourceRequested (newHitTestManager 0 :: (nat, nat, nat) hitTestManager) \<and>
   fst (snd (requestHitTestSource goodSession (newHitTestManager 0) [])) = acquiredManager \<and>
   requestHitTestSource goodSession acquiredManager
       [ReferenceSpaceRequested ''viewer'', HitTestSourceRequested 1]
     = (Inr (), acquiredManager, [ReferenceSpaceRequested ''viewer'', HitTestSourceRequested 1]) \<and>
   acquisitions
       (snd (snd (requestHitTestSource goodSession acquiredManager
          [ReferenceSpaceRequested ''viewer'', HitTestSourceRequested 1]))) = 1"
proof -
  have first:
    "requestHitTestSource goodSession (newHitTestManager 0 :: (nat, nat, nat) hitTestManager) []
       = (Inr (), acquiredManager, [ReferenceSpaceRequested ''viewer'', HitTestSourceRequested 1])"
    by (simp add: requestHitTestSource_def goodSession_def newHitTestManager_def
        acquiredManager_def)
  have flag: "hitTestSourceRequested acquiredManager"
    by (simp add: acquiredManager_def)
  have fresh: "\<not> hitTestSourceRequested (newHitTestManager 0 :: (nat, nat, nat) hitTestManager)"
    by (simp add: newHitTestManager_def)
  show ?thesis
    using first flag fresh
      requestHitTestSource_idempotent [where m = acquiredManager and session = goodSession
        and tr = "[]"]
      requestHitTestSource_idempotent [where m = "newHitTestManager 0 :: (nat, nat, nat) hitTestManager"
        and session = goodSession and session' = goodSession and tr = "[]"]
    by (simp add: acquisitions_def)
qed

text \<open>
  C9. When \<open>requestHitTestSource\<close> on a manager without a successful request does not
  succeed, because the session has no hit-test feature, or because the request for the
  viewer space or the request for the source is rejected, the promise still resolves (no
  exception leaves the method) and the manager is what it was: the source is as before
  (unset when it was unset) and \<open>hitTestSourceRequested\<close> is false. A later call with a
  session that has the feature and answers both requests therefore goes through them
  again and succeeds.
\<close>

theorem requestHitTestSource_failure:
  assumes "\<not> hitTestSourceRequested m"
    and "(case supportedFeatures session of None \<Rightarrow> True | Some fs \<Rightarrow> ''hit-test'' \<notin> set fs) \<or>
         (\<exists>e. requestReferenceSpace session ''viewer'' = Inl e) \<or>
         (\<exists>sp e. requestReferenceSpace session ''viewer'' = Inr sp \<and>
                 xrRequestHitTestSource session sp = Inl e)"
  shows "fst (requestHitTestSource session m tr) = Inr () \<and>
         fst (snd (requestHitTestSource session m tr)) = m \<and>
         hitTestSource (fst (snd (requestHitTestSource session m tr))) = hitTestSource m \<and>
         \<not> hitTestSourceRequested (fst (snd (requestHitTestSource session m tr))) \<and>
         (supportedFeatures session' = Some fs' \<and> ''hit-test'' \<in> set fs' \<and>
          requestReferenceSpace session' ''viewer'' = Inr sp' \<and>
          xrRequestHitTestSource session' sp' = Inr src' \<longrightarrow>
            requestHitTestSource session' (fst (snd (requestHitTestSource session m tr))) tr'
              = (Inr (), m\<lparr>hitTestSource := Some src', hitTestSourceRequested := True\<rparr>,
                 tr' @ [ReferenceSpaceRequested ''viewer'', HitTestSourceRequested sp']))"
proof -
  have same: "requestHitTestSource session m tr
      = (Inr (), m, snd (snd (requestHitTestSource session m tr)))"
    using assms
    by (auto simp add: requestHitTestSource_def split: option.splits sum.splits)
  have m': "fst (snd (requestHitTestSource session m tr)) = m"
    by (subst same) simp
  have r: "fst (requestHitTestSource session m tr) = Inr ()"
    by (subst same) simp
  have retry: "supportedFeatures session' = Some fs' \<Longrightarrow> ''hit-test'' \<in> set fs' \<Longrightarrow>
      requestReferenceSpace session' ''viewer'' = Inr sp' \<Longrightarrow>
      xrRequestHitTestSource session' sp' = Inr src' \<Longrightarrow>
      requestHitTestSource session' m tr'
        = (Inr (), m\<lparr>hitTestSource := Some src', hitTestSourceRequested := True\<rparr>,
           tr' @ [ReferenceSpaceRequested ''viewer'', HitTestSourceRequested sp'])"
    using assms(1) by (simp add: requestHitTestSource_def)
  show ?thesis
    using assms(1) retry by (simp add: m' r)
qed

theorem requestHitTestSource_failure_witness:
  "fst (requestHitTestSource noFeatureSession
          (newHitTestManager 0 :: (nat, nat, nat) hitTestManager) []) = Inr () \<and>
   fst (snd (requestHitTestSource noFeatureSession
          (newHitTestManager 0 :: (nat, nat, nat) hitTestManager) [])) = newHitTestManager 0 \<and>
   fst (requestHitTestSource noSpaceSession
          (newHitTestManager 0 :: (nat, nat, nat) hitTestManager) []) = Inr () \<and>
   fst (snd (requestHitTestSource noSpaceSession
          (newHitTestManager 0 :: (nat, nat, nat) hitTestManager) [])) = newHitTestManager 0 \<and>
   fst (requestHitTestSource noSourceSession
          (newHitTestManager 0 :: (nat, nat, nat) hitTestManager) []) = Inr () \<and>
   fst (snd (requestHitTestSource noSourceSession
          (newHitTestManager 0 :: (nat, nat, nat) hitTestManager) [])) = newHitTestManager 0 \<and>
   \<not> hitTestSourceRequested (fst (snd (requestHitTestSource noSourceSession
          (newHitTestManager 0 :: (nat, nat, nat) hitTestManager) []))) \<and>
   fst (snd (requestHitTestSource goodSession
          (fst (snd (requestHitTestSource noSourceSession
             (newHitTestManager 0 :: (nat, nat, nat) hitTestManager) []))) []))
     = acquiredManager"
proof -
  let ?m = "newHitTestManager 0 :: (nat, nat, nat) hitTestManager"
  have fresh: "\<not> hitTestSourceRequested ?m"
    by (simp add: newHitTestManager_def)
  have f1: "(case supportedFeatures noFeatureSession of None \<Rightarrow> True
             | Some fs \<Rightarrow> ''hit-test'' \<notin> set fs)"
    by (simp add: noFeatureSession_def)
  have f2: "\<exists>e. requestReferenceSpace noSpaceSession ''viewer'' = Inl e"
    by (simp add: noSpaceSession_def)
  have f3: "\<exists>sp e. requestReferenceSpace noSourceSession ''viewer'' = Inr sp \<and>
                   xrRequestHitTestSource noSourceSession sp = Inl e"
    by (simp add: noSourceSession_def goodSession_def)
  have good: "supportedFeatures goodSession = Some [''hit-test''] \<and>
      ''hit-test'' \<in> set [''hit-test''] \<and>
      requestReferenceSpace goodSession ''viewer'' = Inr 1 \<and>
      xrRequestHitTestSource goodSession 1 = Inr 7"
    by (simp add: goodSession_def)
  note A = requestHitTestSource_failure [OF fresh disjI1 [OF f1], where tr = "[]"
      and session' = goodSession and fs' = "[''hit-test'']" and sp' = 1 and src' = 7
      and tr' = "[]"]
  note B = requestHitTestSource_failure [OF fresh disjI2 [OF disjI1 [OF f2]], where tr = "[]"
      and session' = goodSession and fs' = "[''hit-test'']" and sp' = 1 and src' = 7
      and tr' = "[]"]
  note C = requestHitTestSource_failure [OF fresh disjI2 [OF disjI2 [OF f3]], where tr = "[]"
      and session' = goodSession and fs' = "[''hit-test'']" and sp' = 1 and src' = 7
      and tr' = "[]"]
  have a: "fst (requestHitTestSource noFeatureSession ?m []) = Inr () \<and>
      fst (snd (requestHitTestSource noFeatureSession ?m [])) = ?m"
    using A by blast
  have b: "fst (requestHitTestSource noSpaceSession ?m []) = Inr () \<and>
      fst (snd (requestHitTestSource noSpaceSession ?m [])) = ?m"
    using B by blast
  have c: "fst (requestHitTestSource noSourceSession ?m []) = Inr () \<and>
      fst (snd (requestHitTestSource noSourceSession ?m [])) = ?m \<and>
      \<not> hitTestSourceRequested (fst (snd (requestHitTestSource noSourceSession ?m [])))"
    using C by blast
  have retry: "requestHitTestSource goodSession
        (fst (snd (requestHitTestSource noSourceSession ?m []))) []
      = (Inr (), ?m\<lparr>hitTestSource := Some 7, hitTestSourceRequested := True\<rparr>,
         [] @ [ReferenceSpaceRequested ''viewer'', HitTestSourceRequested 1])"
    using C good by blast
  have d: "fst (snd (requestHitTestSource goodSession
        (fst (snd (requestHitTestSource noSourceSession ?m []))) [])) = acquiredManager"
    unfolding retry by (simp add: newHitTestManager_def acquiredManager_def)
  show ?thesis
    using a b c d by blast
qed

end
